theory Spec2Isabelle
  imports Complex_Main "HOL-Library.Word"
begin

section \<open>Error values of package network\<close>

text \<open>
  Go functions either return a value or panic; both are results of the model.
\<close>

datatype 'a outcome = Returns 'a | Panics

definition and_then :: "'a outcome \<Rightarrow> ('a \<Rightarrow> 'b outcome) \<Rightarrow> 'b outcome" where
  "and_then m f = (case m of Panics \<Rightarrow> Panics | Returns v \<Rightarrow> f v)"

text \<open>
  The methods of an error type that is declared outside the two source files are not
  computed by this package, so what they return is carried by the value:
  the text returned by \<open>Error()\<close>, and the answers of \<open>Temporary()\<close> and \<open>Timeout()\<close>,
  \<open>None\<close> when the dynamic type does not have the method.
\<close>

record methods =
  Error_text :: string
  Temporary_report :: "bool option"
  Timeout_report :: "bool option"

text \<open>
  Pointer types whose nil pointer, stored in an \<open>error\<close> interface, is a non-nil
  interface value without a pointee.
\<close>

datatype pointer_type =
  T_AsyncError | T_OpError | T_SyscallError | T_PathError | T_LinkError | T_CloseError

text \<open>
  The four decode sentinels each protocol package (w3gs, bncs) exports; those of the two
  packages are taken as different values.
\<close>

datatype decode_failure =
  ErrInvalidPacketSize | ErrInvalidChecksum | ErrUnexpectedConst | ErrBufferTooSmall

text \<open>
  A value of the interface type \<open>error\<close>, as far as error.go and the connection code
  can observe it: \<open>nil\<close> is the nil interface; \<open>AsyncError Src Err\<close> a non-nil
  \<open>*AsyncError\<close>; \<open>OpError\<close>, \<open>SyscallError\<close>, \<open>PathError\<close>, \<open>LinkError\<close> non-nil pointers
  to the standard wrappers with their field \<open>Err\<close>; \<open>NilPointer\<close> a typed nil pointer;
  \<open>Errno\<close> a \<open>syscall.Errno\<close>; \<open>EOF\<close> is \<open>io.EOF\<close>; \<open>ErrCloseSent\<close> and \<open>CloseError Code Text\<close>
  are the websocket values; \<open>W3GS\<close> and \<open>BNCS\<close> the decode sentinels;
  \<open>SyntaxError\<close> and \<open>UnmarshalTypeError\<close> the two JSON decode errors (with their text);
  \<open>Other\<close> any value of another type.
\<close>

datatype error =
    nil
  | AsyncError (Src: string) (Err: error)
  | OpError methods error
  | SyscallError methods error
  | PathError methods error
  | LinkError methods error
  | NilPointer pointer_type
  | Errno nat
  | EOF
  | ErrCloseSent
  | CloseError int string
  | W3GS decode_failure
  | BNCS decode_failure
  | SyntaxError string
  | UnmarshalTypeError string
  | Other methods

text \<open>
  What the platform and the imported packages fix: the numeric values of the
  \<open>syscall\<close> constants, the methods of \<open>syscall.Errno\<close>, and the texts of the
  sentinels and of \<open>*websocket.CloseError\<close>.
\<close>

record extern =
  ECONNABORTED :: nat
  ECONNRESET :: nat
  ENOTCONN :: nat
  ESHUTDOWN :: nat
  EPIPE :: nat
  ECONNREFUSED :: nat
  errno_Error :: "nat \<Rightarrow> string"
  errno_Temporary :: "nat \<Rightarrow> bool"
  errno_Timeout :: "nat \<Rightarrow> bool"
  w3gs_Error :: "decode_failure \<Rightarrow> string"
  bncs_Error :: "decode_failure \<Rightarrow> string"
  CloseError_Error :: "int \<Rightarrow> string \<Rightarrow> string"

subsection \<open>error.go\<close>

text \<open>
  \<open>UnnestError\<close>: the type switch matches a pointer type also when the pointer is nil,
  and reading \<open>e.Err\<close> through a nil pointer panics.
\<close>

fun UnnestError :: "error \<Rightarrow> error outcome" where
  "UnnestError (AsyncError s e) = UnnestError e"
| "UnnestError (NilPointer T_AsyncError) = Panics"
| "UnnestError (OpError m e) = UnnestError e"
| "UnnestError (NilPointer T_OpError) = Panics"
| "UnnestError (SyscallError m e) = UnnestError e"
| "UnnestError (NilPointer T_SyscallError) = Panics"
| "UnnestError (PathError m e) = UnnestError e"
| "UnnestError (NilPointer T_PathError) = Panics"
| "UnnestError (LinkError m e) = UnnestError e"
| "UnnestError (NilPointer T_LinkError) = Panics"
| "UnnestError err = Returns err"

text \<open>
  The method \<open>Error()\<close>, by dynamic type. \<open>(*AsyncError).Error\<close> is in the source; the
  others answer with the text their package gives them. A method call on the nil
  interface, or one that reads a field through a nil pointer, panics.
\<close>

fun Error :: "extern \<Rightarrow> error \<Rightarrow> string outcome" where
  "Error x nil = Panics"
| "Error x (AsyncError s e) =
     (if e = nil then Returns (s @ '':NIL'')
      else and_then (Error x e) (\<lambda>t. Returns (s @ '':'' @ t)))"
| "Error x (OpError m e) = Returns (Error_text m)"
| "Error x (SyscallError m e) = Returns (Error_text m)"
| "Error x (PathError m e) = Returns (Error_text m)"
| "Error x (LinkError m e) = Returns (Error_text m)"
| "Error x (NilPointer T_OpError) = Returns ''<nil>''"
| "Error x (NilPointer t) = Panics"
| "Error x (Errno n) = Returns (errno_Error x n)"
| "Error x EOF = Returns ''EOF''"
| "Error x ErrCloseSent = Returns ''websocket: close sent''"
| "Error x (CloseError c t) = Returns (CloseError_Error x c t)"
| "Error x (W3GS d) = Returns (w3gs_Error x d)"
| "Error x (BNCS d) = Returns (bncs_Error x d)"
| "Error x (SyntaxError t) = Returns t"
| "Error x (UnmarshalTypeError t) = Returns t"
| "Error x (Other m) = Returns (Error_text m)"

definition IsUseClosedNetworkError :: "extern \<Rightarrow> error \<Rightarrow> bool outcome" where
  "IsUseClosedNetworkError x err =
     (if err \<noteq> nil
      then and_then (Error x err) (\<lambda>t. Returns (t = ''use of closed network connection''))
      else Returns False)"

text \<open>The loop \<open>for _, e := range errno\<close> of \<open>IsSysCallError\<close>.\<close>

fun errno_range :: "nat list \<Rightarrow> nat \<Rightarrow> bool" where
  "errno_range [] n = False"
| "errno_range (e # errno) n = (if e = n then True else errno_range errno n)"

definition IsSysCallError :: "error \<Rightarrow> nat list \<Rightarrow> bool outcome" where
  "IsSysCallError err errno =
     and_then (UnnestError err) (\<lambda>err.
       if err = nil then Returns False
       else case err of
         Errno n \<Rightarrow> Returns (errno_range errno n)
       | _ \<Rightarrow> Returns False)"

text \<open>
  The two predicates of package websocket (an imported library): both test for a
  \<open>*CloseError\<close> and compare its \<open>Code\<close> with the listed codes; reading \<open>Code\<close> through
  a nil pointer panics, which happens only when there is a code to compare with.
\<close>

fun websocket_IsCloseError :: "error \<Rightarrow> int list \<Rightarrow> bool outcome" where
  "websocket_IsCloseError (CloseError c t) codes = Returns (c \<in> set codes)"
| "websocket_IsCloseError (NilPointer T_CloseError) codes =
     (if codes = [] then Returns False else Panics)"
| "websocket_IsCloseError err codes = Returns False"

fun websocket_IsUnexpectedCloseError :: "error \<Rightarrow> int list \<Rightarrow> bool outcome" where
  "websocket_IsUnexpectedCloseError (CloseError c t) expectedCodes = Returns (c \<notin> set expectedCodes)"
| "websocket_IsUnexpectedCloseError (NilPointer T_CloseError) expectedCodes =
     (if expectedCodes = [] then Returns True else Panics)"
| "websocket_IsUnexpectedCloseError err expectedCodes = Returns False"

definition CloseMandatoryExtension :: int where "CloseMandatoryExtension = 1010"
definition CloseTLSHandshake :: int where "CloseTLSHandshake = 1015"

definition WSAECONNREFUSED :: nat where "WSAECONNREFUSED = 10061"
definition WSAECONNABORTED :: nat where "WSAECONNABORTED = 10053"
definition WSAECONNRESET :: nat where "WSAECONNRESET = 10054"
definition WSAENOTCONN :: nat where "WSAENOTCONN = 10057"
definition WSAESHUTDOWN :: nat where "WSAESHUTDOWN = 10058"

definition IsConnRefusedError :: "extern \<Rightarrow> error \<Rightarrow> bool outcome" where
  "IsConnRefusedError x err =
     and_then (UnnestError err) (\<lambda>err.
     and_then (IsSysCallError err [ECONNREFUSED x, WSAECONNREFUSED]) (\<lambda>refused.
       if refused then Returns True
       else websocket_IsCloseError err [CloseTLSHandshake, CloseMandatoryExtension]))"

definition IsConnClosedError :: "extern \<Rightarrow> error \<Rightarrow> bool outcome" where
  "IsConnClosedError x err =
     and_then (UnnestError err) (\<lambda>err.
       if err = EOF then Returns True
       else and_then (IsUseClosedNetworkError x err) (\<lambda>closed.
         if closed then Returns True
         else and_then
           (IsSysCallError err
              [ECONNABORTED x, ECONNRESET x, ENOTCONN x, ESHUTDOWN x, EPIPE x,
               WSAECONNABORTED, WSAECONNRESET, WSAENOTCONN, WSAESHUTDOWN]) (\<lambda>sys.
           if sys then Returns True
           else if err = ErrCloseSent then Returns True
           else websocket_IsUnexpectedCloseError err [])))"

lemma UnnestError_size: "UnnestError e = Returns u \<Longrightarrow> size u \<le> size e"
  by (induction e rule: UnnestError.induct) auto

lemma and_then_cong [fundef_cong]:
  "m = m' \<Longrightarrow> (\<And>v. m' = Returns v \<Longrightarrow> f v = f' v) \<Longrightarrow> and_then m f = and_then m' f'"
  by (cases m') (simp_all add: and_then_def)

text \<open>
  \<open>Timeout x err\<close> is the type assertion \<open>err.(timeout)\<close> followed by the call
  \<open>t.Timeout()\<close>: \<open>None\<close> when the assertion fails. \<open>(*AsyncError).Timeout\<close> is in the
  source and calls \<open>IsTimeoutError\<close> back. The standard wrappers with a \<open>Timeout\<close> method
  read a field of the receiver, so they panic on a nil pointer; \<open>*os.LinkError\<close> and
  \<open>*websocket.CloseError\<close> have no such method.
\<close>

function (sequential) Timeout :: "extern \<Rightarrow> error \<Rightarrow> bool outcome option"
  and IsTimeoutError :: "extern \<Rightarrow> error \<Rightarrow> bool outcome" where
  "Timeout x (AsyncError s e) = Some (IsTimeoutError x e)"
| "Timeout x (NilPointer T_AsyncError) = Some Panics"
| "Timeout x (OpError m e) = map_option Returns (Timeout_report m)"
| "Timeout x (NilPointer T_OpError) = Some Panics"
| "Timeout x (SyscallError m e) = map_option Returns (Timeout_report m)"
| "Timeout x (NilPointer T_SyscallError) = Some Panics"
| "Timeout x (PathError m e) = map_option Returns (Timeout_report m)"
| "Timeout x (NilPointer T_PathError) = Some Panics"
| "Timeout x (LinkError m e) = map_option Returns (Timeout_report m)"
| "Timeout x (Errno n) = Some (Returns (errno_Timeout x n))"
| "Timeout x (Other m) = map_option Returns (Timeout_report m)"
| "Timeout x err = None"
| "IsTimeoutError x err =
     (if err = nil then Returns False
      else case Timeout x err of
        Some r \<Rightarrow> r
      | None \<Rightarrow>
          and_then (UnnestError err) (\<lambda>u.
            case Timeout x u of Some r \<Rightarrow> r | None \<Rightarrow> Returns False))"
  by pat_completeness auto

termination
  by (relation "measure (\<lambda>v. case v of Inl (x, e) \<Rightarrow> 2 * size e | Inr (x, e) \<Rightarrow> 2 * size e + 1)")
     (auto dest: UnnestError_size)

text \<open>
  \<open>Temporary x err\<close> is \<open>err.(temporary)\<close> followed by \<open>t.Temporary()\<close>. Of the standard
  wrappers only \<open>*net.OpError\<close> has the method for certain; a nil \<open>*os.SyscallError\<close>,
  \<open>*os.PathError\<close> or \<open>*os.LinkError\<close> fails the assertion.
\<close>

function (sequential) Temporary :: "extern \<Rightarrow> error \<Rightarrow> bool outcome option"
  and IsTemporaryError :: "extern \<Rightarrow> error \<Rightarrow> bool outcome" where
  "Temporary x (AsyncError s e) = Some (IsTemporaryError x e)"
| "Temporary x (NilPointer T_AsyncError) = Some Panics"
| "Temporary x (OpError m e) = map_option Returns (Temporary_report m)"
| "Temporary x (NilPointer T_OpError) = Some Panics"
| "Temporary x (SyscallError m e) = map_option Returns (Temporary_report m)"
| "Temporary x (PathError m e) = map_option Returns (Temporary_report m)"
| "Temporary x (LinkError m e) = map_option Returns (Temporary_report m)"
| "Temporary x (Errno n) = Some (Returns (errno_Temporary x n))"
| "Temporary x (Other m) = map_option Returns (Temporary_report m)"
| "Temporary x err = None"
| "IsTemporaryError x err =
     (if err = nil then Returns False
      else case Temporary x err of
        Some r \<Rightarrow> r
      | None \<Rightarrow>
          and_then (UnnestError err) (\<lambda>u.
            case Temporary x u of Some r \<Rightarrow> r | None \<Rightarrow> IsTimeoutError x err))"
  by pat_completeness auto
termination
  by (relation "measure (\<lambda>v. case v of Inl (x, e) \<Rightarrow> 2 * size e | Inr (x, e) \<Rightarrow> 2 * size e + 1)")
     (auto dest: UnnestError_size)

section \<open>Connections\<close>

text \<open>
  The model is sequential: the locks \<open>cmut\<close>, \<open>smut\<close> and \<open>lmut\<close> are taken and released
  in pairs inside every method and are not part of the state. A transport is known by
  its identity; what is done to transports (and the sleeping of \<open>SendRL\<close>) is appended
  to a log, the \<open>world\<close>.
\<close>

type_synonym transport = nat
type_synonym bytes = "8 word list"
type_synonym addr = string

datatype effect =
    Close_call transport
  | SetReadDeadline_call transport int
  | WriteTo_call transport bytes addr
  | ReadFrom_call transport
  | Write_packet transport
  | Read_packet transport
  | Read_client_packet transport
  | Read_server_packet transport
  | NextWriter_call transport
  | NextReader_call transport
  | Sleep_call int

type_synonym world = "effect list"

text \<open>
  The four structs. They share the names of their fields, so each field is declared
  once: \<open>CAPIConn\<close> has \<open>conn\<close> only, \<open>W3GSConn\<close> adds \<open>sbuf\<close> and \<open>rbuf\<close>,
  \<open>W3GSPacketConn\<close> adds \<open>bbuf\<close> (the array of 2048 bytes), \<open>BNCSConn\<close> adds \<open>lnxt\<close>
  (a time, in nanoseconds).
\<close>

record handle =
  conn :: "transport option"

record stream_handle = handle +
  sbuf :: bytes
  rbuf :: bytes

type_synonym CAPIConn = handle

type_synonym W3GSConn = stream_handle

record W3GSPacketConn = stream_handle +
  bbuf :: bytes

record BNCSConn = stream_handle +
  lnxt :: int

definition NewCAPIConn :: "transport option \<Rightarrow> CAPIConn" where
  "NewCAPIConn c = \<lparr>conn = c\<rparr>"

definition NewW3GSConn :: "transport option \<Rightarrow> W3GSConn" where
  "NewW3GSConn c = \<lparr>conn = c, sbuf = [], rbuf = []\<rparr>"

definition NewW3GSPacketConn :: "transport option \<Rightarrow> W3GSPacketConn" where
  "NewW3GSPacketConn c = \<lparr>conn = c, sbuf = [], rbuf = [], bbuf = replicate 2048 0\<rparr>"

definition NewBNCSConn :: "transport option \<Rightarrow> BNCSConn" where
  "NewBNCSConn c = \<lparr>conn = c, sbuf = [], rbuf = [], lnxt = 0\<rparr>"

subsection \<open>Conn, Close, SetConn\<close>

text \<open>
  The source has four copies of each, equal up to the receiver type; the model has one,
  over any record that extends \<open>handle\<close>. \<open>close_answer\<close> is what \<open>c.conn.Close()\<close> returns.
\<close>

definition Conn :: "'a handle_scheme \<Rightarrow> transport option" where
  "Conn c = conn c"

definition Close :: "error \<Rightarrow> 'a handle_scheme \<times> world \<Rightarrow> error \<times> 'a handle_scheme \<times> world" where
  "Close close_answer = (\<lambda>(c, w).
     case conn c of
       None \<Rightarrow> (nil, c, w)
     | Some t \<Rightarrow> (close_answer, c, w @ [Close_call t]))"

definition SetConn ::
  "error \<Rightarrow> transport option \<Rightarrow> 'a handle_scheme \<times> world \<Rightarrow> 'a handle_scheme \<times> world" where
  "SetConn close_answer new s =
     (case Close close_answer s of (_, c, w) \<Rightarrow> (c\<lparr>conn := new\<rparr>, w))"

subsection \<open>Send\<close>

text \<open>
  The codec and the transport's write are parameters: \<open>Serialize pkt buf\<close> gives the
  buffer after \<open>pkt.Serialize(&buf)\<close> and its error; \<open>WriteTo t b addr\<close> what
  \<open>conn.WriteTo\<close> returns; \<open>SerializePacketWithBuffer t buf pkt\<close> the result of the
  protocol package's function of that name and the buffer it leaves.
\<close>

definition W3GSPacketConn_Send ::
  "('p \<Rightarrow> bytes \<Rightarrow> bytes \<times> error) \<Rightarrow> (transport \<Rightarrow> bytes \<Rightarrow> addr \<Rightarrow> int \<times> error) \<Rightarrow>
   addr \<Rightarrow> 'p \<Rightarrow> W3GSPacketConn \<times> world \<Rightarrow> (int \<times> error) \<times> W3GSPacketConn \<times> world" where
  "W3GSPacketConn_Send Serialize WriteTo addr pkt = (\<lambda>(c, w).
     case conn c of
       None \<Rightarrow> ((0, EOF), c, w)
     | Some t \<Rightarrow>
         (case Serialize pkt (sbuf (c\<lparr>sbuf := []\<rparr>)) of (b, e) \<Rightarrow>
            if e = nil
            then (WriteTo t b addr, c\<lparr>sbuf := b\<rparr>, w @ [WriteTo_call t b addr])
            else ((0, e), c\<lparr>sbuf := b\<rparr>, w)))"

definition W3GSBroadcastAddr :: addr where
  "W3GSBroadcastAddr = ''255.255.255.255:6112''"

definition W3GSPacketConn_Broadcast ::
  "('p \<Rightarrow> bytes \<Rightarrow> bytes \<times> error) \<Rightarrow> (transport \<Rightarrow> bytes \<Rightarrow> addr \<Rightarrow> int \<times> error) \<Rightarrow>
   'p \<Rightarrow> W3GSPacketConn \<times> world \<Rightarrow> (int \<times> error) \<times> W3GSPacketConn \<times> world" where
  "W3GSPacketConn_Broadcast Serialize WriteTo pkt =
     W3GSPacketConn_Send Serialize WriteTo W3GSBroadcastAddr pkt"

definition W3GSConn_Send ::
  "(transport \<Rightarrow> bytes \<Rightarrow> 'p \<Rightarrow> (int \<times> error) \<times> bytes) \<Rightarrow>
   'p \<Rightarrow> W3GSConn \<times> world \<Rightarrow> (int \<times> error) \<times> W3GSConn \<times> world" where
  "W3GSConn_Send SerializePacketWithBuffer pkt = (\<lambda>(c, w).
     case conn c of
       None \<Rightarrow> ((0, EOF), c, w)
     | Some t \<Rightarrow>
         (case SerializePacketWithBuffer t (sbuf c) pkt of (r, b) \<Rightarrow>
            (r, c\<lparr>sbuf := b\<rparr>, w @ [Write_packet t])))"

definition BNCSConn_Send ::
  "(transport \<Rightarrow> bytes \<Rightarrow> 'p \<Rightarrow> (int \<times> error) \<times> bytes) \<Rightarrow>
   'p \<Rightarrow> BNCSConn \<times> world \<Rightarrow> (int \<times> error) \<times> BNCSConn \<times> world" where
  "BNCSConn_Send SerializePacketWithBuffer pkt = (\<lambda>(c, w).
     case conn c of
       None \<Rightarrow> ((0, EOF), c, w)
     | Some t \<Rightarrow>
         (case SerializePacketWithBuffer t (sbuf c) pkt of (r, b) \<Rightarrow>
            (r, c\<lparr>sbuf := b\<rparr>, w @ [Write_packet t])))"

text \<open>
  \<open>SendRL\<close>. \<open>t0\<close> and \<open>t1\<close> are the two readings of \<open>time.Now()\<close>. The new \<open>lnxt\<close> is
  \<open>time.Duration(math.Pow(math.Log(float64(n))/math.Log(4), 1.5)) * (1300 * time.Millisecond)\<close>:
  the power is converted to the integer type \<open>Duration\<close>, which drops its fraction,
  before it is multiplied. The float64 operations are taken as the real functions they
  approximate.
\<close>

definition Millisecond :: int where
  "Millisecond = 1000000"

definition rate_limit_units :: "int \<Rightarrow> int" where
  "rate_limit_units n = \<lfloor>(ln (real_of_int n) / ln 4) powr 1.5\<rfloor>"

definition BNCSConn_SendRL ::
  "(transport \<Rightarrow> bytes \<Rightarrow> 'p \<Rightarrow> (int \<times> error) \<times> bytes) \<Rightarrow> int \<Rightarrow> int \<Rightarrow>
   'p \<Rightarrow> BNCSConn \<times> world \<Rightarrow> (int \<times> error) \<times> BNCSConn \<times> world" where
  "BNCSConn_SendRL SerializePacketWithBuffer t0 t1 pkt = (\<lambda>(c, w).
     case BNCSConn_Send SerializePacketWithBuffer pkt
            (c, if t0 < lnxt c then w @ [Sleep_call (lnxt c - t0)] else w) of
       ((n, err), c1, w1) \<Rightarrow>
         ((n, err),
          (if n > 0 then c1\<lparr>lnxt := t1 + rate_limit_units n * (1300 * Millisecond)\<rparr> else c1),
          w1))"

text \<open>
  \<open>(*CAPIConn).Send\<close>: \<open>NextWriter t\<close> is the error of \<open>conn.NextWriter\<close>,
  \<open>SerializePacket pkt\<close> that of \<open>capi.SerializePacket(w, pkt)\<close>.
\<close>

definition CAPIConn_Send ::
  "(transport \<Rightarrow> error) \<Rightarrow> ('q \<Rightarrow> error) \<Rightarrow> 'q \<Rightarrow> CAPIConn \<times> world \<Rightarrow> error \<times> CAPIConn \<times> world" where
  "CAPIConn_Send NextWriter SerializePacket pkt = (\<lambda>(c, w).
     case conn c of
       None \<Rightarrow> (EOF, c, w)
     | Some t \<Rightarrow>
         (if NextWriter t = nil
          then (SerializePacket pkt, c, w @ [NextWriter_call t, Write_packet t])
          else (NextWriter t, c, w @ [NextWriter_call t])))"

subsection \<open>NextPacket\<close>

text \<open>
  What the outside answers during one call of \<open>NextPacket\<close>: the reading of
  \<open>time.Now()\<close>, the error of \<open>SetReadDeadline\<close>, and then, by variant, the datagram
  that \<open>ReadFrom\<close> delivers with its source and error, or the result of the protocol
  package's deserializer reading from the stream and the buffer it leaves, or the error
  of \<open>NextReader\<close> and the result of \<open>capi.DeserializePacket\<close>.
\<close>

record recv_answers =
  now :: int
  deadline_answer :: error

record udp_answers = recv_answers +
  datagram :: bytes
  source :: addr
  read_answer :: error

record 'p stream_answers = recv_answers +
  decoded :: "'p option \<times> nat \<times> error"
  rbuf_after :: bytes

record 'p capi_answers = recv_answers +
  reader_answer :: error
  decoded_capi :: "'p option \<times> error"

text \<open>
  \<open>(*W3GSPacketConn).NextPacket\<close>. \<open>ReadFrom\<close> copies at most \<open>len(bbuf)\<close> bytes of the
  datagram into \<open>bbuf\<close> and returns how many; the deserializer (a parameter: its result
  and the buffer it leaves) is given \<open>bbuf[:size]\<close>.
\<close>

definition W3GSPacketConn_NextPacket ::
  "(bytes \<Rightarrow> bytes \<Rightarrow> ('p option \<times> nat \<times> error) \<times> bytes) \<Rightarrow> int \<Rightarrow> udp_answers \<Rightarrow>
   W3GSPacketConn \<times> world \<Rightarrow> ('p option \<times> addr option \<times> error) \<times> W3GSPacketConn \<times> world" where
  "W3GSPacketConn_NextPacket DeserializePacketWithBuffer timeout a = (\<lambda>(c, w).
     case conn c of
       None \<Rightarrow> ((None, None, EOF), c, w)
     | Some t \<Rightarrow>
         if timeout \<noteq> 0 \<and> deadline_answer a \<noteq> nil
         then ((None, None, deadline_answer a), c, w @ [SetReadDeadline_call t (now a + timeout)])
         else
           let w1 = (if timeout \<noteq> 0 then w @ [SetReadDeadline_call t (now a + timeout)] else w)
                      @ [ReadFrom_call t];
               size = min (length (datagram a)) (length (bbuf c));
               c1 = c\<lparr>bbuf := take size (datagram a) @ drop size (bbuf c)\<rparr>
           in if read_answer a \<noteq> nil then ((None, None, read_answer a), c1, w1)
              else
                (case DeserializePacketWithBuffer (take size (bbuf c1)) (rbuf c1) of
                   ((pkt, n, err), rb) \<Rightarrow>
                     if err \<noteq> nil then ((None, None, err), c1\<lparr>rbuf := rb\<rparr>, w1)
                     else ((pkt, Some (source a), err), c1\<lparr>rbuf := rb\<rparr>, w1)))"

definition W3GSConn_NextPacket ::
  "int \<Rightarrow> 'p stream_answers \<Rightarrow> W3GSConn \<times> world \<Rightarrow> ('p option \<times> error) \<times> W3GSConn \<times> world" where
  "W3GSConn_NextPacket timeout a = (\<lambda>(c, w).
     case conn c of
       None \<Rightarrow> ((None, EOF), c, w)
     | Some t \<Rightarrow>
         if timeout \<noteq> 0 \<and> deadline_answer a \<noteq> nil
         then ((None, deadline_answer a), c, w @ [SetReadDeadline_call t (now a + timeout)])
         else
           (case decoded a of (pkt, n, err) \<Rightarrow>
              ((pkt, err), c\<lparr>rbuf := rbuf_after a\<rparr>,
               (if timeout \<noteq> 0 then w @ [SetReadDeadline_call t (now a + timeout)] else w)
                 @ [Read_packet t])))"

definition BNCSConn_NextClientPacket ::
  "int \<Rightarrow> 'p stream_answers \<Rightarrow> BNCSConn \<times> world \<Rightarrow> ('p option \<times> error) \<times> BNCSConn \<times> world" where
  "BNCSConn_NextClientPacket timeout a = (\<lambda>(c, w).
     case conn c of
       None \<Rightarrow> ((None, EOF), c, w)
     | Some t \<Rightarrow>
         if timeout \<noteq> 0 \<and> deadline_answer a \<noteq> nil
         then ((None, deadline_answer a), c, w @ [SetReadDeadline_call t (now a + timeout)])
         else
           (case decoded a of (pkt, n, err) \<Rightarrow>
              ((pkt, err), c\<lparr>rbuf := rbuf_after a\<rparr>,
               (if timeout \<noteq> 0 then w @ [SetReadDeadline_call t (now a + timeout)] else w)
                 @ [Read_client_packet t])))"

definition BNCSConn_NextServerPacket ::
  "int \<Rightarrow> 'p stream_answers \<Rightarrow> BNCSConn \<times> world \<Rightarrow> ('p option \<times> error) \<times> BNCSConn \<times> world" where
  "BNCSConn_NextServerPacket timeout a = (\<lambda>(c, w).
     case conn c of
       None \<Rightarrow> ((None, EOF), c, w)
     | Some t \<Rightarrow>
         if timeout \<noteq> 0 \<and> deadline_answer a \<noteq> nil
         then ((None, deadline_answer a), c, w @ [SetReadDeadline_call t (now a + timeout)])
         else
           (case decoded a of (pkt, n, err) \<Rightarrow>
              ((pkt, err), c\<lparr>rbuf := rbuf_after a\<rparr>,
               (if timeout \<noteq> 0 then w @ [SetReadDeadline_call t (now a + timeout)] else w)
                 @ [Read_server_packet t])))"

text \<open>
  \<open>(*CAPIConn).NextPacket\<close>: \<open>pkt\<close> stays nil when \<open>NextReader\<close> fails; otherwise the
  frame is decoded and its rest discarded.
\<close>

definition CAPIConn_NextPacket ::
  "int \<Rightarrow> 'p capi_answers \<Rightarrow> CAPIConn \<times> world \<Rightarrow> ('p option \<times> error) \<times> CAPIConn \<times> world" where
  "CAPIConn_NextPacket timeout a = (\<lambda>(c, w).
     case conn c of
       None \<Rightarrow> ((None, EOF), c, w)
     | Some t \<Rightarrow>
         if timeout \<noteq> 0 \<and> deadline_answer a \<noteq> nil
         then ((None, deadline_answer a), c, w @ [SetReadDeadline_call t (now a + timeout)])
         else
           let w1 = (if timeout \<noteq> 0 then w @ [SetReadDeadline_call t (now a + timeout)] else w)
                      @ [NextReader_call t]
           in if reader_answer a = nil then (decoded_capi a, c, w1 @ [Read_packet t])
              else ((None, reader_answer a), c, w1))"

subsection \<open>Run\<close>

text \<open>
  The emitter is the list of the \<open>Fire\<close> calls made so far, each with its arguments.
  A run loop is given the answers of the outside for its successive calls of
  \<open>NextPacket\<close>; it ends \<open>Returned err\<close>, or \<open>Panicked\<close>, or \<open>Pending\<close> when the answers
  are used up and the loop is still running.
\<close>

datatype ('p, 'v) event_arg =
    RunStart
  | RunStop
  | Error_arg error
  | Packet_arg "'p option"
  | Addr_arg "addr option"
  | Value_arg 'v

type_synonym ('p, 'v) emitter = "('p, 'v) event_arg list list"

definition Fire :: "('p, 'v) event_arg list \<Rightarrow> ('p, 'v) emitter \<Rightarrow> ('p, 'v) emitter" where
  "Fire args f = f @ [args]"

datatype run_exit = Returned error | Panicked | Pending

fun W3GSPacketConn_Run_loop ::
  "(bytes \<Rightarrow> bytes \<Rightarrow> ('p option \<times> nat \<times> error) \<times> bytes) \<Rightarrow> int \<Rightarrow> udp_answers list \<Rightarrow>
   W3GSPacketConn \<times> world \<times> ('p, 'v) emitter \<Rightarrow>
   run_exit \<times> W3GSPacketConn \<times> world \<times> ('p, 'v) emitter" where
  "W3GSPacketConn_Run_loop D timeout [] (c, w, f) = (Pending, c, w, f)"
| "W3GSPacketConn_Run_loop D timeout (a # as) (c, w, f) =
     (case W3GSPacketConn_NextPacket D timeout a (c, w) of
        ((pkt, addr, err), c', w') \<Rightarrow>
          if err \<noteq> nil then
            if err = W3GS ErrInvalidPacketSize \<or> err = W3GS ErrInvalidChecksum \<or>
               err = W3GS ErrUnexpectedConst \<or> err = W3GS ErrBufferTooSmall
            then W3GSPacketConn_Run_loop D timeout as
                   (c', w', Fire [Error_arg (AsyncError ''Run[NextPacket]'' err)] f)
            else (Returned err, c', w', Fire [RunStop] f)
          else W3GSPacketConn_Run_loop D timeout as (c', w', Fire [Packet_arg pkt, Addr_arg addr] f))"

definition W3GSPacketConn_Run ::
  "(bytes \<Rightarrow> bytes \<Rightarrow> ('p option \<times> nat \<times> error) \<times> bytes) \<Rightarrow> int \<Rightarrow> udp_answers list \<Rightarrow>
   W3GSPacketConn \<times> world \<times> ('p, 'v) emitter \<Rightarrow>
   run_exit \<times> W3GSPacketConn \<times> world \<times> ('p, 'v) emitter" where
  "W3GSPacketConn_Run D timeout as = (\<lambda>(c, w, f).
     W3GSPacketConn_Run_loop D timeout as (c, w, Fire [RunStart] f))"

fun W3GSConn_Run_loop ::
  "int \<Rightarrow> 'p stream_answers list \<Rightarrow> W3GSConn \<times> world \<times> ('p, 'v) emitter \<Rightarrow>
   run_exit \<times> W3GSConn \<times> world \<times> ('p, 'v) emitter" where
  "W3GSConn_Run_loop timeout [] (c, w, f) = (Pending, c, w, f)"
| "W3GSConn_Run_loop timeout (a # as) (c, w, f) =
     (case W3GSConn_NextPacket timeout a (c, w) of
        ((pkt, err), c', w') \<Rightarrow>
          if err \<noteq> nil then
            if err = W3GS ErrInvalidPacketSize \<or> err = W3GS ErrInvalidChecksum \<or>
               err = W3GS ErrUnexpectedConst \<or> err = W3GS ErrBufferTooSmall
            then W3GSConn_Run_loop timeout as
                   (c', w', Fire [Error_arg (AsyncError ''Run[NextPacket]'' err)] f)
            else (Returned err, c', w', Fire [RunStop] f)
          else W3GSConn_Run_loop timeout as (c', w', Fire [Packet_arg pkt] f))"

definition W3GSConn_Run ::
  "int \<Rightarrow> 'p stream_answers list \<Rightarrow> W3GSConn \<times> world \<times> ('p, 'v) emitter \<Rightarrow>
   run_exit \<times> W3GSConn \<times> world \<times> ('p, 'v) emitter" where
  "W3GSConn_Run timeout as = (\<lambda>(c, w, f). W3GSConn_Run_loop timeout as (c, w, Fire [RunStart] f))"

fun BNCSConn_RunServer_loop ::
  "int \<Rightarrow> 'p stream_answers list \<Rightarrow> BNCSConn \<times> world \<times> ('p, 'v) emitter \<Rightarrow>
   run_exit \<times> BNCSConn \<times> world \<times> ('p, 'v) emitter" where
  "BNCSConn_RunServer_loop timeout [] (c, w, f) = (Pending, c, w, f)"
| "BNCSConn_RunServer_loop timeout (a # as) (c, w, f) =
     (case BNCSConn_NextClientPacket timeout a (c, w) of
        ((pkt, err), c', w') \<Rightarrow>
          if err \<noteq> nil then
            if err = BNCS ErrInvalidPacketSize \<or> err = BNCS ErrInvalidChecksum \<or>
               err = BNCS ErrUnexpectedConst \<or> err = BNCS ErrBufferTooSmall
            then BNCSConn_RunServer_loop timeout as
                   (c', w', Fire [Error_arg (AsyncError ''RunServer[NextPacket]'' err)] f)
            else (Returned err, c', w', Fire [RunStop] f)
          else BNCSConn_RunServer_loop timeout as (c', w', Fire [Packet_arg pkt] f))"

definition BNCSConn_RunServer ::
  "int \<Rightarrow> 'p stream_answers list \<Rightarrow> BNCSConn \<times> world \<times> ('p, 'v) emitter \<Rightarrow>
   run_exit \<times> BNCSConn \<times> world \<times> ('p, 'v) emitter" where
  "BNCSConn_RunServer timeout as = (\<lambda>(c, w, f).
     BNCSConn_RunServer_loop timeout as (c, w, Fire [RunStart] f))"

fun BNCSConn_RunClient_loop ::
  "int \<Rightarrow> 'p stream_answers list \<Rightarrow> BNCSConn \<times> world \<times> ('p, 'v) emitter \<Rightarrow>
   run_exit \<times> BNCSConn \<times> world \<times> ('p, 'v) emitter" where
  "BNCSConn_RunClient_loop timeout [] (c, w, f) = (Pending, c, w, f)"
| "BNCSConn_RunClient_loop timeout (a # as) (c, w, f) =
     (case BNCSConn_NextServerPacket timeout a (c, w) of
        ((pkt, err), c', w') \<Rightarrow>
          if err \<noteq> nil then
            if err = BNCS ErrInvalidPacketSize \<or> err = BNCS ErrInvalidChecksum \<or>
               err = BNCS ErrUnexpectedConst \<or> err = BNCS ErrBufferTooSmall
            then BNCSConn_RunClient_loop timeout as
                   (c', w', Fire [Error_arg (AsyncError ''RunClient[NextPacket]'' err)] f)
            else (Returned err, c', w', Fire [RunStop] f)
          else BNCSConn_RunClient_loop timeout as (c', w', Fire [Packet_arg pkt] f))"

definition BNCSConn_RunClient ::
  "int \<Rightarrow> 'p stream_answers list \<Rightarrow> BNCSConn \<times> world \<times> ('p, 'v) emitter \<Rightarrow>
   run_exit \<times> BNCSConn \<times> world \<times> ('p, 'v) emitter" where
  "BNCSConn_RunClient timeout as = (\<lambda>(c, w, f).
     BNCSConn_RunClient_loop timeout as (c, w, Fire [RunStart] f))"

text \<open>
  \<open>capi.Packet\<close>, of which the loop reads the field \<open>Payload\<close>; the packet arrives
  through a pointer, and \<open>pkt.Payload\<close> on a nil pointer panics.
\<close>

record 'v capi_Packet =
  Payload :: 'v

fun CAPIConn_Run_loop ::
  "int \<Rightarrow> 'v capi_Packet capi_answers list \<Rightarrow> CAPIConn \<times> world \<times> ('v capi_Packet, 'v) emitter \<Rightarrow>
   run_exit \<times> CAPIConn \<times> world \<times> ('v capi_Packet, 'v) emitter" where
  "CAPIConn_Run_loop timeout [] (c, w, f) = (Pending, c, w, f)"
| "CAPIConn_Run_loop timeout (a # as) (c, w, f) =
     (case CAPIConn_NextPacket timeout a (c, w) of
        ((pkt, err), c', w') \<Rightarrow>
          if err \<noteq> nil then
            (case err of
               SyntaxError _ \<Rightarrow>
                 CAPIConn_Run_loop timeout as
                   (c', w', Fire [Error_arg (AsyncError ''Run[NextPacket]'' err)] f)
             | UnmarshalTypeError _ \<Rightarrow>
                 CAPIConn_Run_loop timeout as
                   (c', w', Fire [Error_arg (AsyncError ''Run[NextPacket]'' err)] f)
             | _ \<Rightarrow> (Returned err, c', w', Fire [RunStop] f))
          else
            (case pkt of
               None \<Rightarrow> (Panicked, c', w', Fire [Packet_arg pkt] f)
             | Some p \<Rightarrow>
                 CAPIConn_Run_loop timeout as
                   (c', w', Fire [Value_arg (Payload p), Packet_arg pkt] (Fire [Packet_arg pkt] f))))"

definition CAPIConn_Run ::
  "int \<Rightarrow> 'v capi_Packet capi_answers list \<Rightarrow> CAPIConn \<times> world \<times> ('v capi_Packet, 'v) emitter \<Rightarrow>
   run_exit \<times> CAPIConn \<times> world \<times> ('v capi_Packet, 'v) emitter" where
  "CAPIConn_Run timeout as = (\<lambda>(c, w, f). CAPIConn_Run_loop timeout as (c, w, Fire [RunStart] f))"

section \<open>Notions used in the statements\<close>

text \<open>
  A layer is one non-nil wrapper of the five kinds \<open>UnnestError\<close> knows, without its
  cause; \<open>wrap ls c\<close> puts the layers \<open>ls\<close> around \<open>c\<close>, the first outermost.
  \<open>is_wrapper e\<close> says that the dynamic type of \<open>e\<close> is one of the five.
\<close>

datatype layer =
    L_AsyncError string
  | L_OpError methods
  | L_SyscallError methods
  | L_PathError methods
  | L_LinkError methods

fun wrap_layer :: "layer \<Rightarrow> error \<Rightarrow> error" where
  "wrap_layer (L_AsyncError s) e = AsyncError s e"
| "wrap_layer (L_OpError m) e = OpError m e"
| "wrap_layer (L_SyscallError m) e = SyscallError m e"
| "wrap_layer (L_PathError m) e = PathError m e"
| "wrap_layer (L_LinkError m) e = LinkError m e"

definition wrap :: "layer list \<Rightarrow> error \<Rightarrow> error" where
  "wrap ls e = foldr wrap_layer ls e"

fun is_wrapper :: "error \<Rightarrow> bool" where
  "is_wrapper (AsyncError s e) = True"
| "is_wrapper (OpError m e) = True"
| "is_wrapper (SyscallError m e) = True"
| "is_wrapper (PathError m e) = True"
| "is_wrapper (LinkError m e) = True"
| "is_wrapper (NilPointer t) = (t \<noteq> T_CloseError)"
| "is_wrapper e = False"

text \<open>
  No nil pointer of one of the five wrapper kinds occurs in the value, at any depth: the
  chain of causes that \<open>UnnestError\<close> follows does not end in a wrapper without pointee.
\<close>

fun no_nil_wrapper :: "error \<Rightarrow> bool" where
  "no_nil_wrapper (AsyncError s e) = no_nil_wrapper e"
| "no_nil_wrapper (OpError m e) = no_nil_wrapper e"
| "no_nil_wrapper (SyscallError m e) = no_nil_wrapper e"
| "no_nil_wrapper (PathError m e) = no_nil_wrapper e"
| "no_nil_wrapper (LinkError m e) = no_nil_wrapper e"
| "no_nil_wrapper (NilPointer t) = (t = T_CloseError)"
| "no_nil_wrapper e = True"

text \<open>No typed nil pointer occurs in the value, at any depth.\<close>

fun no_nil_pointer :: "error \<Rightarrow> bool" where
  "no_nil_pointer (AsyncError s e) = no_nil_pointer e"
| "no_nil_pointer (OpError m e) = no_nil_pointer e"
| "no_nil_pointer (SyscallError m e) = no_nil_pointer e"
| "no_nil_pointer (PathError m e) = no_nil_pointer e"
| "no_nil_pointer (LinkError m e) = no_nil_pointer e"
| "no_nil_pointer (NilPointer t) = False"
| "no_nil_pointer e = True"

text \<open>
  The causes that the specification lists for a closed connection: end of stream, the
  text "use of closed network connection", the abort, reset, not-connected, shutdown and
  broken-pipe codes with the four Windows numbers, and the websocket values.
\<close>

fun closed_cause :: "extern \<Rightarrow> error \<Rightarrow> bool" where
  "closed_cause x EOF = True"
| "closed_cause x ErrCloseSent = True"
| "closed_cause x (CloseError code text) = True"
| "closed_cause x (Errno n) =
     (n \<in> {ECONNABORTED x, ECONNRESET x, ENOTCONN x, ESHUTDOWN x, EPIPE x,
            10053, 10054, 10057, 10058} \<or>
      errno_Error x n = ''use of closed network connection'')"
| "closed_cause x e = (Error x e = Returns ''use of closed network connection'')"

text \<open>An error unrelated to connections: a plain value with a text and no other method.\<close>

definition file_not_found :: error where
  "file_not_found =
     Other \<lparr>Error_text = ''file not found'', Temporary_report = None, Timeout_report = None\<rparr>"

text \<open>
  \<open>IsTemporaryError\<close> as the specification words it: true if the error, or its innermost
  cause, reports itself temporary; otherwise the timeout classification.
\<close>

definition IsTemporaryError_as_specified :: "extern \<Rightarrow> error \<Rightarrow> bool outcome" where
  "IsTemporaryError_as_specified x err =
     (if Temporary x err = Some (Returns True) \<or>
         and_then (UnnestError err) (\<lambda>u. Returns (Temporary x u = Some (Returns True))) = Returns True
      then Returns True
      else IsTimeoutError x err)"

text \<open>
  An error that reports a timeout and reports itself not temporary, as the error that a
  TLS connection returns from a write that timed out does.
\<close>

definition permanent_timeout :: error where
  "permanent_timeout =
     Other \<lparr>Error_text = ''i/o timeout'', Temporary_report = Some False, Timeout_report = Some True\<rparr>"

text \<open>
  An instance of \<open>extern\<close> for concrete evaluations: the constants and the \<open>Errno\<close>
  methods of linux/amd64, with a few of the texts.
\<close>

definition extern_linux :: extern where
  "extern_linux = \<lparr>
     ECONNABORTED = 103, ECONNRESET = 104, ENOTCONN = 107, ESHUTDOWN = 108, EPIPE = 32,
     ECONNREFUSED = 111,
     errno_Error = (\<lambda>n. if n = 2 then ''no such file or directory''
                         else if n = 104 then ''connection reset by peer''
                         else if n = 110 then ''connection timed out''
                         else ''errno''),
     errno_Temporary = (\<lambda>n. n = 4 \<or> n = 24 \<or> n = 23 \<or> n = 11 \<or> n = 110),
     errno_Timeout = (\<lambda>n. n = 11 \<or> n = 110),
     w3gs_Error = (\<lambda>d. ''w3gs: decode failure''),
     bncs_Error = (\<lambda>d. ''bncs: decode failure''),
     CloseError_Error = (\<lambda>c t. ''websocket: close '' @ t)\<rparr>"

text \<open>
  The errors after which a run loop goes on: the four sentinels of the protocol, or for
  the CAPI loop the two JSON error types.
\<close>

fun recoverable_w3gs :: "error \<Rightarrow> bool" where
  "recoverable_w3gs (W3GS d) = True"
| "recoverable_w3gs e = False"

fun recoverable_bncs :: "error \<Rightarrow> bool" where
  "recoverable_bncs (BNCS d) = True"
| "recoverable_bncs e = False"

fun recoverable_capi :: "error \<Rightarrow> bool" where
  "recoverable_capi (SyntaxError t) = True"
| "recoverable_capi (UnmarshalTypeError t) = True"
| "recoverable_capi e = False"

text \<open>
  The successive results of a receive operation on the given answers, the state passed
  from each call to the next, and the state after them.
\<close>

fun receives :: "('a \<Rightarrow> 's \<Rightarrow> 'r \<times> 's) \<Rightarrow> 'a list \<Rightarrow> 's \<Rightarrow> 'r list" where
  "receives next [] s = []"
| "receives next (a # as) s = (case next a s of (r, s') \<Rightarrow> r # receives next as s')"

fun after_receives :: "('a \<Rightarrow> 's \<Rightarrow> 'r \<times> 's) \<Rightarrow> 'a list \<Rightarrow> 's \<Rightarrow> 's" where
  "after_receives next [] s = s"
| "after_receives next (a # as) s = (case next a s of (r, s') \<Rightarrow> after_receives next as s')"

text \<open>How a run ended, and the calls of \<open>Fire\<close> it made.\<close>

definition exit_of :: "run_exit \<times> 'c \<times> world \<times> 'f \<Rightarrow> run_exit" where
  "exit_of r = fst r"

definition fired :: "run_exit \<times> 'c \<times> world \<times> 'f \<Rightarrow> 'f" where
  "fired r = snd (snd (snd r))"

text \<open>
  For the CAPI loop: the results after which it goes on (a decoded packet, or a JSON
  error), and what is fired for one result.
\<close>

fun capi_continues :: "'v capi_Packet option \<times> error \<Rightarrow> bool" where
  "capi_continues (pkt, err) = (if err = nil then pkt \<noteq> None else recoverable_capi err)"

fun capi_fired :: "'v capi_Packet option \<times> error \<Rightarrow> ('v capi_Packet, 'v) event_arg list list" where
  "capi_fired (pkt, err) =
     (if err = nil then
        (case pkt of
           None \<Rightarrow> []
         | Some p \<Rightarrow> [[Packet_arg (Some p)], [Value_arg (Payload p), Packet_arg (Some p)]])
      else if recoverable_capi err then [[Error_arg (AsyncError ''Run[NextPacket]'' err)]]
      else [])"

text \<open>Answers and a codec for concrete runs; packets are numbers.\<close>

definition closed_network_error :: error where
  "closed_network_error =
     Other \<lparr>Error_text = ''use of closed network connection'',
            Temporary_report = None, Timeout_report = None\<rparr>"

definition example_Deserialize :: "bytes \<Rightarrow> bytes \<Rightarrow> (nat option \<times> nat \<times> error) \<times> bytes" where
  "example_Deserialize b rb =
     (case b of
        [] \<Rightarrow> ((None, 0, W3GS ErrInvalidPacketSize), rb)
      | x # _ \<Rightarrow> ((Some (unat x), 1, nil), b))"

definition example_udp_answers :: "bytes \<Rightarrow> error \<Rightarrow> udp_answers" where
  "example_udp_answers d e =
     \<lparr>now = 0, deadline_answer = nil, datagram = d, source = ''10.0.0.2:6112'', read_answer = e\<rparr>"

definition example_stream_answers :: "nat option \<times> nat \<times> error \<Rightarrow> nat stream_answers" where
  "example_stream_answers d = \<lparr>now = 0, deadline_answer = nil, decoded = d, rbuf_after = []\<rparr>"

definition example_capi_answers ::
  "error \<Rightarrow> nat capi_Packet option \<times> error \<Rightarrow> nat capi_Packet capi_answers" where
  "example_capi_answers e d =
     \<lparr>now = 0, deadline_answer = nil, reader_answer = e, decoded_capi = d\<rparr>"

section \<open>UnnestError\<close>

lemma UnnestError_wrap_layer: "UnnestError (wrap_layer l e) = UnnestError e"
  by (cases l) simp_all

lemma UnnestError_wrap: "UnnestError (wrap ls e) = UnnestError e"
  by (induction ls) (simp_all add: wrap_def UnnestError_wrap_layer)

lemma UnnestError_leaf: "\<not> is_wrapper e \<Longrightarrow> UnnestError e = Returns e"
  by (cases e rule: is_wrapper.cases) simp_all

lemma UnnestError_not_wrapper: "UnnestError e = Returns c \<Longrightarrow> \<not> is_wrapper c"
  by (induction e rule: UnnestError.induct) auto

lemma wrap_Cons: "wrap (l # ls) e = wrap_layer l (wrap ls e)"
  by (simp add: wrap_def)

lemma UnnestError_peels: "UnnestError e = Returns c \<Longrightarrow> \<exists>ls. e = wrap ls c"
proof (induction e rule: UnnestError.induct)
  case (1 s e)
  then obtain ls where "e = wrap ls c" by auto
  then have "AsyncError s e = wrap (L_AsyncError s # ls) c" by (simp add: wrap_Cons)
  then show ?case by blast
next
  case (3 m e)
  then obtain ls where "e = wrap ls c" by auto
  then have "OpError m e = wrap (L_OpError m # ls) c" by (simp add: wrap_Cons)
  then show ?case by blast
next
  case (5 m e)
  then obtain ls where "e = wrap ls c" by auto
  then have "SyscallError m e = wrap (L_SyscallError m # ls) c" by (simp add: wrap_Cons)
  then show ?case by blast
next
  case (7 m e)
  then obtain ls where "e = wrap ls c" by auto
  then have "PathError m e = wrap (L_PathError m # ls) c" by (simp add: wrap_Cons)
  then show ?case by blast
next
  case (9 m e)
  then obtain ls where "e = wrap ls c" by auto
  then have "LinkError m e = wrap (L_LinkError m # ls) c" by (simp add: wrap_Cons)
  then show ?case by blast
qed (auto intro: exI [of _ "[]"] simp: wrap_def)

lemma UnnestError_returns: "no_nil_wrapper e \<Longrightarrow> \<exists>c. UnnestError e = Returns c"
  by (induction e rule: UnnestError.induct) auto

lemma UnnestError_panics_iff: "(UnnestError e = Panics) = (\<not> no_nil_wrapper e)"
  by (induction e rule: UnnestError.induct) auto

text \<open>
  C5, as stated, at an \<open>AsyncError\<close> whose cause is a nil \<open>*net.OpError\<close>: \<open>UnnestError\<close>
  strips the \<open>AsyncError\<close>, matches the case \<open>*net.OpError\<close> and panics reading \<open>e.Err\<close>;
  it returns no cause.
\<close>

theorem UnnestError_nil_wrapper_counterexample:
  "UnnestError (AsyncError ''Run[NextPacket]'' (NilPointer T_OpError)) = Panics \<and>
   \<not> no_nil_wrapper (AsyncError ''Run[NextPacket]'' (NilPointer T_OpError))"
  by simp

text \<open>
  C5, amended. For every error value in which no nil pointer of the five wrapper kinds
  occurs, \<open>UnnestError\<close> returns the innermost cause: a value \<open>c\<close> that is not of one of the
  five kinds, the argument being \<open>c\<close> inside some (possibly no) layers of those kinds; and
  only on such values does it return (on the others it panics). It returns \<open>c\<close> exactly
  when \<open>c\<close> is not of a wrapper kind and the argument is \<open>c\<close> inside layers of the five
  kinds, so it strips the five kinds and nothing else. It is the identity on a value that
  is not such a wrapper, and an \<open>AsyncError\<close> around an \<open>OpError\<close> around a \<open>SyscallError\<close>
  gives the cause inside the \<open>SyscallError\<close>.
\<close>

theorem UnnestError_innermost_cause:
  "(no_nil_wrapper err \<longrightarrow>
      (\<exists>cause' ls. UnnestError err = Returns cause' \<and> \<not> is_wrapper cause' \<and> err = wrap ls cause')) \<and>
   ((UnnestError err' = Panics) = (\<not> no_nil_wrapper err')) \<and>
   ((UnnestError e = Returns c) = (\<not> is_wrapper c \<and> (\<exists>ls. e = wrap ls c))) \<and>
   (\<not> is_wrapper e' \<longrightarrow> UnnestError e' = Returns e') \<and>
   (\<not> is_wrapper cause \<longrightarrow>
      UnnestError (AsyncError s (OpError m (SyscallError m' cause))) = Returns cause)"
proof (intro conjI impI)
  assume "no_nil_wrapper err"
  then obtain k where k: "UnnestError err = Returns k" using UnnestError_returns by blast
  then have "\<not> is_wrapper k" by (rule UnnestError_not_wrapper)
  moreover from k obtain ls where "err = wrap ls k" using UnnestError_peels by blast
  ultimately show
    "\<exists>cause' ls. UnnestError err = Returns cause' \<and> \<not> is_wrapper cause' \<and> err = wrap ls cause'"
    using k by blast
next
  show "(UnnestError err' = Panics) = (\<not> no_nil_wrapper err')"
    by (rule UnnestError_panics_iff)
next
  show "(UnnestError e = Returns c) = (\<not> is_wrapper c \<and> (\<exists>ls. e = wrap ls c))"
  proof
    assume "UnnestError e = Returns c"
    then show "\<not> is_wrapper c \<and> (\<exists>ls. e = wrap ls c)"
      by (simp add: UnnestError_not_wrapper UnnestError_peels)
  next
    assume "\<not> is_wrapper c \<and> (\<exists>ls. e = wrap ls c)"
    then obtain ls where "\<not> is_wrapper c" and "e = wrap ls c" by blast
    then show "UnnestError e = Returns c"
      by (simp add: UnnestError_wrap UnnestError_leaf)
  qed
next
  assume "\<not> is_wrapper e'"
  then show "UnnestError e' = Returns e'" by (rule UnnestError_leaf)
next
  assume "\<not> is_wrapper cause"
  then show "UnnestError (AsyncError s (OpError m (SyscallError m' cause))) = Returns cause"
    by (simp add: UnnestError_leaf)
qed

theorem UnnestError_innermost_cause_witness:
  "no_nil_wrapper (AsyncError ''Run[NextPacket]''
      (OpError \<lparr>Error_text = ''read tcp: connection reset by peer'',
                Temporary_report = Some False, Timeout_report = Some False\<rparr>
        (SyscallError \<lparr>Error_text = ''read: connection reset by peer'',
                       Temporary_report = None, Timeout_report = Some False\<rparr>
          (Errno 104)))) \<and>
   UnnestError (AsyncError ''Run[NextPacket]''
      (OpError \<lparr>Error_text = ''read tcp: connection reset by peer'',
                Temporary_report = Some False, Timeout_report = Some False\<rparr>
        (SyscallError \<lparr>Error_text = ''read: connection reset by peer'',
                       Temporary_report = None, Timeout_report = Some False\<rparr>
          (Errno 104)))) = Returns (Errno 104) \<and>
   \<not> is_wrapper (Errno 104) \<and> \<not> is_wrapper EOF \<and> UnnestError EOF = Returns EOF \<and>
   (\<exists>ls. AsyncError ''a''
           (PathError \<lparr>Error_text = ''open'', Temporary_report = None, Timeout_report = None\<rparr> EOF)
         = wrap ls EOF)"
  using UnnestError_innermost_cause
    [where err = "AsyncError ''Run[NextPacket]''
      (OpError \<lparr>Error_text = ''read tcp: connection reset by peer'',
                Temporary_report = Some False, Timeout_report = Some False\<rparr>
        (SyscallError \<lparr>Error_text = ''read: connection reset by peer'',
                       Temporary_report = None, Timeout_report = Some False\<rparr>
          (Errno 104)))"
       and e = "AsyncError ''a''
           (PathError \<lparr>Error_text = ''open'', Temporary_report = None, Timeout_report = None\<rparr> EOF)"
       and c = EOF and e' = EOF and cause = "Errno 104" and s = "''Run[NextPacket]''"
       and m = "\<lparr>Error_text = ''read tcp: connection reset by peer'',
                 Temporary_report = Some False, Timeout_report = Some False\<rparr>"
       and m' = "\<lparr>Error_text = ''read: connection reset by peer'',
                  Temporary_report = None, Timeout_report = Some False\<rparr>"]
  by simp

text \<open>
  C10. \<open>UnnestError\<close> applied to what \<open>UnnestError\<close> returns gives the same result as
  \<open>UnnestError\<close> once (also when the first call panics: then there is no second), and a
  returned cause is never of one of the five wrapper kinds.
\<close>

theorem UnnestError_idempotent:
  "and_then (UnnestError e) UnnestError = UnnestError e \<and>
   (UnnestError e = Returns c \<longrightarrow> \<not> is_wrapper c \<and> UnnestError c = Returns c)"
proof (cases "UnnestError e")
  case (Returns u)
  then have "\<not> is_wrapper u" by (rule UnnestError_not_wrapper)
  then have "UnnestError u = Returns u" by (rule UnnestError_leaf)
  with Returns \<open>\<not> is_wrapper u\<close> show ?thesis by (auto simp: and_then_def)
next
  case Panics
  then show ?thesis by (simp add: and_then_def)
qed

theorem UnnestError_idempotent_witness:
  "UnnestError (LinkError \<lparr>Error_text = ''link'', Temporary_report = None, Timeout_report = None\<rparr>
      (AsyncError ''x'' EOF)) = Returns EOF \<and>
   \<not> is_wrapper EOF \<and> UnnestError EOF = Returns EOF"
  using UnnestError_idempotent
    [of "LinkError \<lparr>Error_text = ''link'', Temporary_report = None, Timeout_report = None\<rparr>
           (AsyncError ''x'' EOF)" EOF]
  by simp

section \<open>IsConnClosedError\<close>

declare IsTimeoutError.simps [simp del] IsTemporaryError.simps [simp del]

lemma and_then_simps [simp]:
  "and_then (Returns u) f = f u" "and_then Panics f = Panics"
  by (simp_all add: and_then_def)

lemma errno_range_set: "errno_range ns n = (n \<in> set ns)"
  by (induction ns) auto

lemma IsConnClosedError_leaf:
  "\<not> is_wrapper c \<Longrightarrow> (IsConnClosedError x c = Returns True) = closed_cause x c"
  by (cases c rule: is_wrapper.cases)
     (simp_all add: IsConnClosedError_def IsUseClosedNetworkError_def IsSysCallError_def
        errno_range_set WSAECONNABORTED_def WSAECONNRESET_def WSAENOTCONN_def WSAESHUTDOWN_def)

lemma IsConnClosedError_UnnestError:
  "IsConnClosedError x err = and_then (UnnestError err) (IsConnClosedError x)"
proof (cases "UnnestError err")
  case (Returns u)
  then have "UnnestError u = Returns u" by (simp add: UnnestError_not_wrapper UnnestError_leaf)
  with Returns show ?thesis by (simp add: IsConnClosedError_def)
next
  case Panics
  then show ?thesis by (simp add: IsConnClosedError_def)
qed

lemma IsConnClosedError_iff:
  "(IsConnClosedError x err = Returns True) = (\<exists>c. UnnestError err = Returns c \<and> closed_cause x c)"
proof (cases "UnnestError err")
  case (Returns u)
  then have "\<not> is_wrapper u" by (rule UnnestError_not_wrapper)
  then have "(IsConnClosedError x u = Returns True) = closed_cause x u"
    by (rule IsConnClosedError_leaf)
  with Returns show ?thesis by (simp add: IsConnClosedError_UnnestError [of x err])
next
  case Panics
  then show ?thesis by (simp add: IsConnClosedError_UnnestError [of x err])
qed

lemma file_not_found_unrelated:
  "IsConnClosedError x file_not_found = Returns False \<and>
   IsConnRefusedError x file_not_found = Returns False \<and>
   IsTimeoutError x file_not_found = Returns False"
  by (simp add: file_not_found_def IsConnClosedError_def IsConnRefusedError_def
      IsUseClosedNetworkError_def IsSysCallError_def IsTimeoutError.simps)

text \<open>
  C6. \<open>IsConnClosedError\<close> returns true exactly when the innermost cause of its argument
  is one of the listed causes: \<open>io.EOF\<close>, a value whose text is "use of closed network
  connection", one of the codes ECONNABORTED, ECONNRESET, ENOTCONN, ESHUTDOWN, EPIPE, 10053,
  10054, 10057, 10058, or a websocket close value. Each listed cause, under any layers of
  wrappers, is classified as closed. The unrelated error "file not found" is classified
  as not closed, not refused and not a timeout.
\<close>

theorem IsConnClosedError_exactly:
  "((IsConnClosedError x err = Returns True) =
      (\<exists>c. UnnestError err = Returns c \<and> closed_cause x c)) \<and>
   (c \<in> {EOF, ErrCloseSent, CloseError code text,
          Errno (ECONNABORTED x), Errno (ECONNRESET x), Errno (ENOTCONN x),
          Errno (ESHUTDOWN x), Errno (EPIPE x),
          Errno 10053, Errno 10054, Errno 10057, Errno 10058} \<or>
    c = Other m \<and> Error_text m = ''use of closed network connection''
      \<longrightarrow> IsConnClosedError x (wrap ls c) = Returns True) \<and>
   IsConnClosedError x file_not_found = Returns False \<and>
   IsConnRefusedError x file_not_found = Returns False \<and>
   IsTimeoutError x file_not_found = Returns False"
proof (intro conjI impI)
  show "(IsConnClosedError x err = Returns True) =
      (\<exists>c. UnnestError err = Returns c \<and> closed_cause x c)"
    by (rule IsConnClosedError_iff)
next
  assume a: "c \<in> {EOF, ErrCloseSent, CloseError code text,
          Errno (ECONNABORTED x), Errno (ECONNRESET x), Errno (ENOTCONN x),
          Errno (ESHUTDOWN x), Errno (EPIPE x),
          Errno 10053, Errno 10054, Errno 10057, Errno 10058} \<or>
    c = Other m \<and> Error_text m = ''use of closed network connection''"
  then have "\<not> is_wrapper c" by auto
  moreover from a have "closed_cause x c" by auto
  ultimately have "UnnestError (wrap ls c) = Returns c \<and> closed_cause x c"
    by (simp add: UnnestError_wrap UnnestError_leaf)
  then show "IsConnClosedError x (wrap ls c) = Returns True"
    unfolding IsConnClosedError_iff by blast
qed (simp_all add: file_not_found_unrelated)

theorem IsConnClosedError_exactly_witness:
  "IsConnClosedError extern_linux
     (OpError \<lparr>Error_text = ''read tcp 10.0.0.1:6112: connection reset by peer'',
               Temporary_report = Some False, Timeout_report = Some False\<rparr>
        (SyscallError \<lparr>Error_text = ''read: connection reset by peer'',
                       Temporary_report = None, Timeout_report = Some False\<rparr> (Errno 104)))
     = Returns True \<and>
   IsConnClosedError extern_linux (Errno 10054) = Returns True \<and>
   IsConnClosedError extern_linux
     (PathError \<lparr>Error_text = ''open x: no such file or directory'',
                 Temporary_report = None, Timeout_report = Some False\<rparr> (Errno 2)) \<noteq> Returns True"
  using IsConnClosedError_exactly
    [where x = extern_linux and c = "Errno 104"
       and ls = "[L_OpError \<lparr>Error_text = ''read tcp 10.0.0.1:6112: connection reset by peer'',
                    Temporary_report = Some False, Timeout_report = Some False\<rparr>,
                  L_SyscallError \<lparr>Error_text = ''read: connection reset by peer'',
                       Temporary_report = None, Timeout_report = Some False\<rparr>]"
       and err = "PathError \<lparr>Error_text = ''open x: no such file or directory'',
                 Temporary_report = None, Timeout_report = Some False\<rparr> (Errno 2)"]
    IsConnClosedError_exactly [where x = extern_linux and c = "Errno 10054" and ls = "[]"]
  by (simp add: extern_linux_def wrap_def)

section \<open>IsTemporaryError\<close>

text \<open>
  C7, as stated, at an error with \<open>Temporary() = false\<close> and \<open>Timeout() = true\<close>: the error
  does not report itself temporary, the timeout classification is true, and
  \<open>IsTemporaryError\<close> returns false, where the wording gives true.
\<close>

theorem IsTemporaryError_fallback_counterexample:
  "IsTemporaryError extern_linux permanent_timeout = Returns False \<and>
   IsTimeoutError extern_linux permanent_timeout = Returns True \<and>
   IsTemporaryError_as_specified extern_linux permanent_timeout = Returns True"
  by (simp add: permanent_timeout_def IsTemporaryError_as_specified_def
        IsTemporaryError.simps IsTimeoutError.simps)

text \<open>
  C7, amended. \<open>IsTemporaryError\<close> is false on nil. On another error it returns what
  the error's own \<open>Temporary()\<close> reports, if the error has that method; otherwise what the
  \<open>Temporary()\<close> of its innermost cause reports, if that has the method; and only when
  neither has the method, the result of \<open>IsTimeoutError\<close>. So an \<open>AsyncError\<close> is
  classified as its cause is, and a plain error by its own report, or by its timeout
  report when it has no \<open>Temporary()\<close>.
\<close>

theorem IsTemporaryError_precedence:
  "IsTemporaryError x nil = Returns False \<and>
   (err \<noteq> nil \<and> Temporary x err = Some r \<longrightarrow> IsTemporaryError x err = r) \<and>
   (err' \<noteq> nil \<and> Temporary x err' = None \<and> UnnestError err' = Returns u \<and>
      Temporary x u = Some r' \<longrightarrow> IsTemporaryError x err' = r') \<and>
   (err'' \<noteq> nil \<and> Temporary x err'' = None \<and> UnnestError err'' = Returns u' \<and>
      Temporary x u' = None \<longrightarrow> IsTemporaryError x err'' = IsTimeoutError x err'') \<and>
   IsTemporaryError x (AsyncError s e) = IsTemporaryError x e \<and>
   IsTemporaryError x (Other m) =
     Returns (case Temporary_report m of Some b \<Rightarrow> b | None \<Rightarrow> Timeout_report m = Some True)"
  by (auto simp: IsTemporaryError.simps IsTimeoutError.simps split: option.splits)

theorem IsTemporaryError_precedence_witness:
  "IsTemporaryError extern_linux permanent_timeout = Returns False \<and>
   IsTemporaryError extern_linux
     (PathError \<lparr>Error_text = ''read x: interrupted system call'',
                 Temporary_report = None, Timeout_report = Some False\<rparr> (Errno 4)) = Returns True \<and>
   IsTemporaryError extern_linux EOF = IsTimeoutError extern_linux EOF"
  using IsTemporaryError_precedence
    [where x = extern_linux and err = permanent_timeout and r = "Returns False"
       and err' = "PathError \<lparr>Error_text = ''read x: interrupted system call'',
                 Temporary_report = None, Timeout_report = Some False\<rparr> (Errno 4)"
       and u = "Errno 4" and r' = "Returns True" and err'' = EOF and u' = EOF]
  by (simp add: extern_linux_def permanent_timeout_def)

section \<open>Totality of the classifiers\<close>

lemma no_nil_UnnestError:
  "no_nil_pointer e \<Longrightarrow> \<exists>c. UnnestError e = Returns c \<and> no_nil_pointer c \<and> \<not> is_wrapper c"
  by (induction e rule: UnnestError.induct) auto

lemma no_nil_Timeout:
  "no_nil_pointer c \<Longrightarrow> \<not> is_wrapper c \<Longrightarrow> Timeout x c = Some r \<Longrightarrow> \<exists>b. r = Returns b"
  by (cases c rule: is_wrapper.cases) auto

lemma no_nil_Temporary:
  "no_nil_pointer c \<Longrightarrow> \<not> is_wrapper c \<Longrightarrow> Temporary x c = Some r \<Longrightarrow> \<exists>b. r = Returns b"
  by (cases c rule: is_wrapper.cases) auto

lemma IsTimeoutError_fallback_returns:
  assumes "no_nil_pointer e"
  shows "\<exists>b. and_then (UnnestError e)
            (\<lambda>u. case Timeout x u of Some r \<Rightarrow> r | None \<Rightarrow> Returns False) = Returns b"
proof -
  from assms obtain c where c: "UnnestError e = Returns c" "no_nil_pointer c" "\<not> is_wrapper c"
    using no_nil_UnnestError by blast
  then show ?thesis
    by (cases "Timeout x c") (auto dest: no_nil_Timeout)
qed

lemma no_nil_IsTimeoutError: "no_nil_pointer e \<Longrightarrow> \<exists>b. IsTimeoutError x e = Returns b"
proof (induction e)
  case (AsyncError s e)
  then show ?case by (simp add: IsTimeoutError.simps)
next
  case (OpError m e)
  then show ?case
    using IsTimeoutError_fallback_returns [of "OpError m e" x]
    by (cases "Timeout_report m") (simp_all add: IsTimeoutError.simps)
next
  case (SyscallError m e)
  then show ?case
    using IsTimeoutError_fallback_returns [of "SyscallError m e" x]
    by (cases "Timeout_report m") (simp_all add: IsTimeoutError.simps)
next
  case (PathError m e)
  then show ?case
    using IsTimeoutError_fallback_returns [of "PathError m e" x]
    by (cases "Timeout_report m") (simp_all add: IsTimeoutError.simps)
next
  case (LinkError m e)
  then show ?case
    using IsTimeoutError_fallback_returns [of "LinkError m e" x]
    by (cases "Timeout_report m") (simp_all add: IsTimeoutError.simps)
next
  case (Other m)
  then show ?case by (cases "Timeout_report m") (auto simp: IsTimeoutError.simps)
qed (auto simp: IsTimeoutError.simps)

lemma IsTemporaryError_fallback_returns:
  assumes "no_nil_pointer e"
  shows "\<exists>b. and_then (UnnestError e)
            (\<lambda>u. case Temporary x u of Some r \<Rightarrow> r | None \<Rightarrow> IsTimeoutError x e) = Returns b"
proof -
  from assms obtain c where c: "UnnestError e = Returns c" "no_nil_pointer c" "\<not> is_wrapper c"
    using no_nil_UnnestError by blast
  with assms show ?thesis
    by (cases "Temporary x c") (auto dest: no_nil_Temporary no_nil_IsTimeoutError)
qed

lemma no_nil_IsTemporaryError: "no_nil_pointer e \<Longrightarrow> \<exists>b. IsTemporaryError x e = Returns b"
proof (induction e)
  case (AsyncError s e)
  then show ?case by (simp add: IsTemporaryError.simps)
next
  case (OpError m e)
  then show ?case
    using IsTemporaryError_fallback_returns [of "OpError m e" x]
    by (cases "Temporary_report m") (simp_all add: IsTemporaryError.simps)
next
  case (SyscallError m e)
  then show ?case
    using IsTemporaryError_fallback_returns [of "SyscallError m e" x]
    by (cases "Temporary_report m") (simp_all add: IsTemporaryError.simps)
next
  case (PathError m e)
  then show ?case
    using IsTemporaryError_fallback_returns [of "PathError m e" x]
    by (cases "Temporary_report m") (simp_all add: IsTemporaryError.simps)
next
  case (LinkError m e)
  then show ?case
    using IsTemporaryError_fallback_returns [of "LinkError m e" x]
    by (cases "Temporary_report m") (simp_all add: IsTemporaryError.simps)
next
  case (Other m)
  then show ?case
    using IsTemporaryError_fallback_returns [of "Other m" x]
    by (cases "Temporary_report m") (simp_all add: IsTemporaryError.simps)
next
  case (NilPointer t)
  then show ?case by simp
qed (auto simp: IsTemporaryError.simps IsTimeoutError.simps)

lemma no_nil_IsConnClosedError_leaf:
  "no_nil_pointer c \<Longrightarrow> \<not> is_wrapper c \<Longrightarrow> \<exists>b. IsConnClosedError x c = Returns b"
  by (cases c rule: is_wrapper.cases)
     (auto simp: IsConnClosedError_def IsUseClosedNetworkError_def IsSysCallError_def)

lemma no_nil_IsConnClosedError: "no_nil_pointer e \<Longrightarrow> \<exists>b. IsConnClosedError x e = Returns b"
  using no_nil_UnnestError [of e] no_nil_IsConnClosedError_leaf
  by (auto simp: IsConnClosedError_UnnestError [of x e])

lemma IsConnRefusedError_UnnestError:
  "IsConnRefusedError x err = and_then (UnnestError err) (IsConnRefusedError x)"
proof (cases "UnnestError err")
  case (Returns u)
  then have "UnnestError u = Returns u" by (simp add: UnnestError_not_wrapper UnnestError_leaf)
  with Returns show ?thesis by (simp add: IsConnRefusedError_def)
next
  case Panics
  then show ?thesis by (simp add: IsConnRefusedError_def)
qed

lemma no_nil_IsConnRefusedError_leaf:
  "no_nil_pointer c \<Longrightarrow> \<not> is_wrapper c \<Longrightarrow> \<exists>b. IsConnRefusedError x c = Returns b"
  by (cases c rule: is_wrapper.cases)
     (auto simp: IsConnRefusedError_def IsSysCallError_def)

lemma no_nil_IsConnRefusedError: "no_nil_pointer e \<Longrightarrow> \<exists>b. IsConnRefusedError x e = Returns b"
  using no_nil_UnnestError [of e] no_nil_IsConnRefusedError_leaf
  by (auto simp: IsConnRefusedError_UnnestError [of x e])

text \<open>
  C8, as stated, at a nil \<open>*AsyncError\<close> stored in an \<open>error\<close>: every classifier panics.
\<close>

theorem classifiers_panic_counterexample:
  "UnnestError (NilPointer T_AsyncError) = Panics \<and>
   IsTemporaryError extern_linux (NilPointer T_AsyncError) = Panics \<and>
   IsTimeoutError extern_linux (NilPointer T_AsyncError) = Panics \<and>
   IsConnClosedError extern_linux (NilPointer T_AsyncError) = Panics \<and>
   IsConnRefusedError extern_linux (NilPointer T_AsyncError) = Panics"
  by (simp add: IsTemporaryError.simps IsTimeoutError.simps IsConnClosedError_def
        IsConnRefusedError_def)

text \<open>
  C8, amended. On nil, and on every error value in which no typed nil pointer occurs
  (whether or not it has a \<open>Temporary\<close> or \<open>Timeout\<close> method), each of the five
  classifiers returns a result. They take no state and change none.
\<close>

theorem classifiers_total:
  "(no_nil_pointer err \<longrightarrow>
      (\<exists>c. UnnestError err = Returns c) \<and>
      (\<exists>b. IsTemporaryError x err = Returns b) \<and>
      (\<exists>b. IsTimeoutError x err = Returns b) \<and>
      (\<exists>b. IsConnClosedError x err = Returns b) \<and>
      (\<exists>b. IsConnRefusedError x err = Returns b)) \<and>
   UnnestError nil = Returns nil \<and>
   IsTemporaryError x nil = Returns False \<and>
   IsTimeoutError x nil = Returns False \<and>
   IsConnClosedError x nil = Returns False \<and>
   IsConnRefusedError x nil = Returns False \<and>
   IsTemporaryError x (Other \<lparr>Error_text = t, Temporary_report = None, Timeout_report = None\<rparr>)
     = Returns False \<and>
   IsTimeoutError x (Other \<lparr>Error_text = t, Temporary_report = None, Timeout_report = None\<rparr>)
     = Returns False"
proof (intro conjI impI)
  assume "no_nil_pointer err"
  then show "\<exists>c. UnnestError err = Returns c" using no_nil_UnnestError by blast
next
  assume "no_nil_pointer err"
  then show "\<exists>b. IsTemporaryError x err = Returns b" by (rule no_nil_IsTemporaryError)
next
  assume "no_nil_pointer err"
  then show "\<exists>b. IsTimeoutError x err = Returns b" by (rule no_nil_IsTimeoutError)
next
  assume "no_nil_pointer err"
  then show "\<exists>b. IsConnClosedError x err = Returns b" by (rule no_nil_IsConnClosedError)
next
  assume "no_nil_pointer err"
  then show "\<exists>b. IsConnRefusedError x err = Returns b" by (rule no_nil_IsConnRefusedError)
qed (simp_all add: IsTemporaryError.simps IsTimeoutError.simps IsConnClosedError_def
        IsConnRefusedError_def IsUseClosedNetworkError_def IsSysCallError_def)

theorem classifiers_total_witness:
  "no_nil_pointer (AsyncError ''Run[NextPacket]'' (OpError
       \<lparr>Error_text = ''read tcp: i/o timeout'', Temporary_report = Some True, Timeout_report = Some True\<rparr>
       (Errno 110))) \<and>
   IsTimeoutError extern_linux (AsyncError ''Run[NextPacket]'' (OpError
       \<lparr>Error_text = ''read tcp: i/o timeout'', Temporary_report = Some True, Timeout_report = Some True\<rparr>
       (Errno 110))) = Returns True \<and>
   IsConnClosedError extern_linux (AsyncError ''Run[NextPacket]'' (OpError
       \<lparr>Error_text = ''read tcp: i/o timeout'', Temporary_report = Some True, Timeout_report = Some True\<rparr>
       (Errno 110))) = Returns False"
  using classifiers_total
    [where x = extern_linux and err = "AsyncError ''Run[NextPacket]'' (OpError
       \<lparr>Error_text = ''read tcp: i/o timeout'', Temporary_report = Some True, Timeout_report = Some True\<rparr>
       (Errno 110))"]
  by (simp add: IsTimeoutError.simps IsConnClosedError_def IsUseClosedNetworkError_def
        IsSysCallError_def extern_linux_def WSAECONNABORTED_def WSAECONNRESET_def
        WSAENOTCONN_def WSAESHUTDOWN_def)

section \<open>Handles without a transport\<close>

text \<open>
  C2. On a handle with no transport, \<open>Send\<close> (and \<open>Broadcast\<close>) and every \<open>NextPacket\<close>
  return \<open>io.EOF\<close>, with 0 bytes written and no packet; the handle and the log of what was
  done to transports are unchanged.
\<close>

theorem nil_transport_EOF:
  fixes uc :: W3GSPacketConn and tc :: W3GSConn and bc :: BNCSConn and cc :: CAPIConn
  shows
  "(Conn uc = None \<longrightarrow>
      W3GSPacketConn_Send Serialize WriteTo addr pkt (uc, w) = ((0, EOF), uc, w) \<and>
      W3GSPacketConn_Broadcast Serialize WriteTo pkt (uc, w) = ((0, EOF), uc, w) \<and>
      W3GSPacketConn_NextPacket Deserialize timeout ua (uc, w) = ((None, None, EOF), uc, w)) \<and>
   (Conn tc = None \<longrightarrow>
      W3GSConn_Send SerializeW pkt (tc, w) = ((0, EOF), tc, w) \<and>
      W3GSConn_NextPacket timeout ta (tc, w) = ((None, EOF), tc, w)) \<and>
   (Conn bc = None \<longrightarrow>
      BNCSConn_Send SerializeB bpkt (bc, w) = ((0, EOF), bc, w) \<and>
      BNCSConn_NextClientPacket timeout ba (bc, w) = ((None, EOF), bc, w) \<and>
      BNCSConn_NextServerPacket timeout ba (bc, w) = ((None, EOF), bc, w)) \<and>
   (Conn cc = None \<longrightarrow>
      CAPIConn_Send NextWriter SerializePacket cpkt (cc, w) = (EOF, cc, w) \<and>
      CAPIConn_NextPacket timeout ca (cc, w) = ((None, EOF), cc, w))"
  by (simp add: Conn_def W3GSPacketConn_Send_def W3GSPacketConn_Broadcast_def
        W3GSPacketConn_NextPacket_def W3GSConn_Send_def W3GSConn_NextPacket_def
        BNCSConn_Send_def BNCSConn_NextClientPacket_def BNCSConn_NextServerPacket_def
        CAPIConn_Send_def CAPIConn_NextPacket_def)

theorem nil_transport_EOF_witness:
  "W3GSPacketConn_Send (\<lambda>p b. (b @ [p], nil)) (\<lambda>t b a. (int (length b), nil)) ''10.0.0.2:6112'' 7
     (NewW3GSPacketConn None, []) = ((0, EOF), NewW3GSPacketConn None, []) \<and>
   W3GSPacketConn_NextPacket example_Deserialize 5 (example_udp_answers [7] nil)
     (NewW3GSPacketConn None, []) = ((None, None, EOF), NewW3GSPacketConn None, []) \<and>
   W3GSConn_Send (\<lambda>t b p. ((1, nil), b @ [p])) 7 (NewW3GSConn None, [])
     = ((0, EOF), NewW3GSConn None, []) \<and>
   W3GSConn_NextPacket 5 (example_stream_answers (Some 7, 1, nil)) (NewW3GSConn None, [])
     = ((None, EOF), NewW3GSConn None, []) \<and>
   BNCSConn_Send (\<lambda>t b p. ((1, nil), b @ [p])) 7 (NewBNCSConn None, [])
     = ((0, EOF), NewBNCSConn None, []) \<and>
   BNCSConn_NextClientPacket 5 (example_stream_answers (Some 7, 1, nil)) (NewBNCSConn None, [])
     = ((None, EOF), NewBNCSConn None, []) \<and>
   BNCSConn_NextServerPacket 5 (example_stream_answers (Some 7, 1, nil)) (NewBNCSConn None, [])
     = ((None, EOF), NewBNCSConn None, []) \<and>
   CAPIConn_Send (\<lambda>t. nil) (\<lambda>p. nil) (7::nat) (NewCAPIConn None, [])
     = (EOF, NewCAPIConn None, []) \<and>
   CAPIConn_NextPacket 5 (example_capi_answers nil (Some \<lparr>Payload = 7\<rparr>, nil)) (NewCAPIConn None, [])
     = ((None, EOF), NewCAPIConn None, [])"
  using nil_transport_EOF
    [where uc = "NewW3GSPacketConn None" and tc = "NewW3GSConn None" and bc = "NewBNCSConn None"
       and cc = "NewCAPIConn None" and w = "[]" and timeout = 5
       and Serialize = "\<lambda>p b. (b @ [p], nil)" and WriteTo = "\<lambda>t b a. (int (length b), nil)"
       and addr = "''10.0.0.2:6112''" and pkt = 7 and Deserialize = example_Deserialize
       and ua = "example_udp_answers [7] nil"
       and SerializeW = "\<lambda>t b p. ((1, nil), b @ [p])"
       and ta = "example_stream_answers (Some 7, 1, nil)"
       and SerializeB = "\<lambda>t b p. ((1, nil), b @ [p])" and bpkt = 7
       and ba = "example_stream_answers (Some 7, 1, nil)"
       and NextWriter = "\<lambda>t. nil" and SerializePacket = "\<lambda>p. nil" and cpkt = "7::nat"
       and ca = "example_capi_answers nil (Some \<lparr>Payload = 7\<rparr>, nil)"]
  by (simp add: Conn_def NewW3GSPacketConn_def NewW3GSConn_def NewBNCSConn_def NewCAPIConn_def)


section \<open>SetConn\<close>

lemma SetConn_scheme:
  "SetConn a new (c, w) =
     (c\<lparr>conn := new\<rparr>, w @ (case conn c of None \<Rightarrow> [] | Some old \<Rightarrow> [Close_call old]))"
  by (cases "conn c") (simp_all add: SetConn_def Close_def)

lemma Close_scheme:
  "conn c = Some old \<Longrightarrow> Close a (c, w) = (a, c, w @ [Close_call old])"
  by (simp add: Close_def)

text \<open>
  C4. For each of the four handles: when a transport is attached, \<open>SetConn\<close> calls
  \<open>Close\<close> on it while the handle still holds it (the call is appended to the log), and
  then installs the new one; with no transport attached it only installs. In both cases
  \<open>Conn\<close> yields the new transport once \<open>SetConn\<close> has returned.
\<close>

theorem SetConn_closes_then_installs:
  fixes uc :: W3GSPacketConn and tc :: W3GSConn and bc :: BNCSConn and cc :: CAPIConn
  shows
  "(Conn uc = Some old_u \<longrightarrow>
      Close a (uc, w) = (a, uc, w @ [Close_call old_u]) \<and>
      SetConn a new (uc, w) = (uc\<lparr>conn := new\<rparr>, w @ [Close_call old_u])) \<and>
   (Conn tc = Some old_t \<longrightarrow>
      Close a (tc, w) = (a, tc, w @ [Close_call old_t]) \<and>
      SetConn a new (tc, w) = (tc\<lparr>conn := new\<rparr>, w @ [Close_call old_t])) \<and>
   (Conn bc = Some old_b \<longrightarrow>
      Close a (bc, w) = (a, bc, w @ [Close_call old_b]) \<and>
      SetConn a new (bc, w) = (bc\<lparr>conn := new\<rparr>, w @ [Close_call old_b])) \<and>
   (Conn cc = Some old_c \<longrightarrow>
      Close a (cc, w) = (a, cc, w @ [Close_call old_c]) \<and>
      SetConn a new (cc, w) = (cc\<lparr>conn := new\<rparr>, w @ [Close_call old_c])) \<and>
   (Conn uc = None \<longrightarrow> SetConn a new (uc, w) = (uc\<lparr>conn := new\<rparr>, w)) \<and>
   (Conn tc = None \<longrightarrow> SetConn a new (tc, w) = (tc\<lparr>conn := new\<rparr>, w)) \<and>
   (Conn bc = None \<longrightarrow> SetConn a new (bc, w) = (bc\<lparr>conn := new\<rparr>, w)) \<and>
   (Conn cc = None \<longrightarrow> SetConn a new (cc, w) = (cc\<lparr>conn := new\<rparr>, w)) \<and>
   Conn (fst (SetConn a new (uc, w))) = new \<and>
   Conn (fst (SetConn a new (tc, w))) = new \<and>
   Conn (fst (SetConn a new (bc, w))) = new \<and>
   Conn (fst (SetConn a new (cc, w))) = new"
  by (simp add: SetConn_scheme Close_scheme Conn_def)

theorem SetConn_closes_then_installs_witness:
  "SetConn nil (Some 2) (NewW3GSPacketConn (Some 1), []) =
     (NewW3GSPacketConn (Some 2), [Close_call 1]) \<and>
   SetConn nil (Some 2) (NewW3GSConn (Some 1), []) = (NewW3GSConn (Some 2), [Close_call 1]) \<and>
   SetConn nil (Some 2) (NewBNCSConn (Some 1), []) = (NewBNCSConn (Some 2), [Close_call 1]) \<and>
   SetConn nil (Some 2) (NewCAPIConn (Some 1), []) = (NewCAPIConn (Some 2), [Close_call 1]) \<and>
   SetConn nil (Some 2) (NewW3GSPacketConn None, []) = (NewW3GSPacketConn (Some 2), []) \<and>
   SetConn nil (Some 2) (NewW3GSConn None, []) = (NewW3GSConn (Some 2), []) \<and>
   SetConn nil (Some 2) (NewBNCSConn None, []) = (NewBNCSConn (Some 2), []) \<and>
   SetConn nil (Some 2) (NewCAPIConn None, []) = (NewCAPIConn (Some 2), [])"
  using SetConn_closes_then_installs
    [where uc = "NewW3GSPacketConn (Some 1)" and tc = "NewW3GSConn (Some 1)"
       and bc = "NewBNCSConn (Some 1)" and cc = "NewCAPIConn (Some 1)"
       and old_u = 1 and old_t = 1 and old_b = 1 and old_c = 1 and a = nil and new = "Some 2" and w = "[]"]
    SetConn_closes_then_installs
    [where uc = "NewW3GSPacketConn None" and tc = "NewW3GSConn None"
       and bc = "NewBNCSConn None" and cc = "NewCAPIConn None"
       and a = nil and new = "Some 2" and w = "[]"]
  by (simp add: NewW3GSPacketConn_def NewW3GSConn_def NewBNCSConn_def NewCAPIConn_def Conn_def)

section \<open>The rate limit of SendRL\<close>

lemma ln4_pos: "0 < ln (4::real)" by simp

lemma log4_10_lower: "(8/5::real) \<le> ln 10 / ln 4"
proof -
  have a: "ln (65536::real) \<le> ln 100000" by simp
  have b: "ln (65536::real) = 8 * ln 4" using ln_realpow [of "4::real" 8] by simp
  have c: "ln (100000::real) = 5 * ln 10" using ln_realpow [of "10::real" 5] by simp
  from a b c have "8 * ln (4::real) \<le> 5 * ln 10" by linarith
  then show ?thesis using ln4_pos by (simp add: field_simps)
qed

lemma log4_10_upper: "ln 10 / ln (4::real) < 2"
proof -
  have a: "ln (10::real) < ln 16" by simp
  have b: "ln (16::real) = 2 * ln 4" using ln_realpow [of "4::real" 2] by simp
  from a b have "ln (10::real) < 2 * ln 4" by linarith
  then show ?thesis using ln4_pos by (simp add: field_simps)
qed

lemma powr_three_halves: "0 \<le> x \<Longrightarrow> x powr (3/2) = sqrt (x ^ 3)" for x :: real
proof -
  assume x: "0 \<le> x"
  have "x powr (3/2) = (x powr 3) powr (1/2)" by (simp add: powr_powr)
  also have "x powr 3 = x ^ 3" using x by (cases "x = 0") simp_all
  also have "(x ^ 3) powr (1/2) = sqrt (x ^ 3)" using x by (simp add: powr_half_sqrt)
  finally show ?thesis .
qed

lemma pow_log4_10_bounds:
  "2 < (ln 10 / ln (4::real)) powr (3/2) \<and> (ln 10 / ln (4::real)) powr (3/2) < 3"
proof
  have "(2::real) = sqrt (2 ^ 2)" by simp
  also have "\<dots> < sqrt ((8/5) ^ 3)" by (subst real_sqrt_less_iff) (simp add: power3_eq_cube)
  also have "\<dots> = (8/5::real) powr (3/2)" by (simp add: powr_three_halves)
  also have "\<dots> \<le> (ln 10 / ln (4::real)) powr (3/2)"
    by (rule powr_mono2) (use log4_10_lower in simp_all)
  finally show "2 < (ln 10 / ln (4::real)) powr (3/2)" .
next
  have "0 \<le> ln 10 / ln (4::real)" using log4_10_lower by linarith
  then have "(ln 10 / ln (4::real)) powr (3/2) < (2::real) powr (3/2)"
    by (intro powr_less_mono2) (use log4_10_upper in simp_all)
  also have "\<dots> = sqrt (2 ^ 3)" by (simp add: powr_three_halves)
  also have "\<dots> < sqrt (3 ^ 2)" by (subst real_sqrt_less_iff) simp
  also have "\<dots> = 3" by simp
  finally show "(ln 10 / ln (4::real)) powr (3/2) < 3" .
qed

lemma rate_limit_units_10: "rate_limit_units 10 = 2"
  unfolding rate_limit_units_def
  using pow_log4_10_bounds by (intro floor_unique) simp_all

lemma rate_limit_units_4: "rate_limit_units 4 = 1"
  unfolding rate_limit_units_def by simp


lemma log4_10_claimed: "real_of_int (2600 * Millisecond) < 1300 * real_of_int Millisecond * (log 4 10) powr (3/2)"
  using pow_log4_10_bounds by (simp add: log_def Millisecond_def)

text \<open>
  C3. After a send that reports 10 bytes, \<open>SendRL\<close> stores \<open>t1 + 2600ms\<close>: twice 1300ms,
  the power \<open>(log\<^sub>4 10)\<^sup>1\<^sup>.\<^sup>5\<close> having lost its fraction, which is less than
  \<open>1300ms \<times> (log\<^sub>4 10)\<^sup>1\<^sup>.\<^sup>5\<close>. After a send of 4 bytes it stores \<open>t1 + 1300ms\<close>,
  and after a send that reports no byte (\<open>n \<le> 0\<close>) it leaves \<open>lnxt\<close> as it was.
\<close>

theorem SendRL_drops_fraction:
  "lnxt (fst (snd (BNCSConn_SendRL (\<lambda>t b p. ((10, nil), b)) t0 t1 pkt (c\<lparr>conn := Some tr\<rparr>, w))))
     = t1 + 2600 * Millisecond \<and>
   real_of_int (2600 * Millisecond) < 1300 * real_of_int Millisecond * (log 4 10) powr (3/2) \<and>
   lnxt (fst (snd (BNCSConn_SendRL (\<lambda>t b p. ((4, nil), b)) t0 t1 pkt (c\<lparr>conn := Some tr\<rparr>, w))))
     = t1 + 1300 * Millisecond \<and>
   lnxt (fst (snd (BNCSConn_SendRL (\<lambda>t b p. ((- int k, e), b)) t0 t1 pkt (c, w)))) = lnxt c"
proof (intro conjI)
  show "lnxt (fst (snd (BNCSConn_SendRL (\<lambda>t b p. ((10, nil), b)) t0 t1 pkt (c\<lparr>conn := Some tr\<rparr>, w))))
     = t1 + 2600 * Millisecond"
    by (simp add: BNCSConn_SendRL_def BNCSConn_Send_def rate_limit_units_10)
  show "real_of_int (2600 * Millisecond) < 1300 * real_of_int Millisecond * (log 4 10) powr (3/2)"
    by (rule log4_10_claimed)
  show "lnxt (fst (snd (BNCSConn_SendRL (\<lambda>t b p. ((4, nil), b)) t0 t1 pkt (c\<lparr>conn := Some tr\<rparr>, w))))
     = t1 + 1300 * Millisecond"
    by (simp add: BNCSConn_SendRL_def BNCSConn_Send_def rate_limit_units_4)
  show "lnxt (fst (snd (BNCSConn_SendRL (\<lambda>t b p. ((- int k, e), b)) t0 t1 pkt (c, w)))) = lnxt c"
    by (cases "conn c") (simp_all add: BNCSConn_SendRL_def BNCSConn_Send_def)
qed

section \<open>Run loops\<close>

lemma recoverable_w3gs_iff:
  "recoverable_w3gs e = (e = W3GS ErrInvalidPacketSize \<or> e = W3GS ErrInvalidChecksum \<or>
      e = W3GS ErrUnexpectedConst \<or> e = W3GS ErrBufferTooSmall)"
  by (cases e rule: recoverable_w3gs.cases) (simp_all, metis decode_failure.exhaust)

lemma recoverable_bncs_iff:
  "recoverable_bncs e = (e = BNCS ErrInvalidPacketSize \<or> e = BNCS ErrInvalidChecksum \<or>
      e = BNCS ErrUnexpectedConst \<or> e = BNCS ErrBufferTooSmall)"
  by (cases e rule: recoverable_bncs.cases) (simp_all, metis decode_failure.exhaust)

lemma W3GSPacketConn_Run_loop_step:
  "W3GSPacketConn_NextPacket D timeout a (c, w) = ((pkt, ad, err), c', w') \<Longrightarrow>
   W3GSPacketConn_Run_loop D timeout (a # as) (c, w, f) =
     (if err = nil then W3GSPacketConn_Run_loop D timeout as (c', w', f @ [[Packet_arg pkt, Addr_arg ad]])
      else if recoverable_w3gs err
      then W3GSPacketConn_Run_loop D timeout as
             (c', w', f @ [[Error_arg (AsyncError ''Run[NextPacket]'' err)]])
      else (Returned err, c', w', f @ [[RunStop]]))"
  by (simp add: Fire_def recoverable_w3gs_iff)

lemma W3GSConn_Run_loop_step:
  "W3GSConn_NextPacket timeout a (c, w) = ((pkt, err), c', w') \<Longrightarrow>
   W3GSConn_Run_loop timeout (a # as) (c, w, f) =
     (if err = nil then W3GSConn_Run_loop timeout as (c', w', f @ [[Packet_arg pkt]])
      else if recoverable_w3gs err
      then W3GSConn_Run_loop timeout as
             (c', w', f @ [[Error_arg (AsyncError ''Run[NextPacket]'' err)]])
      else (Returned err, c', w', f @ [[RunStop]]))"
  by (simp add: Fire_def recoverable_w3gs_iff)

lemma BNCSConn_RunServer_loop_step:
  "BNCSConn_NextClientPacket timeout a (c, w) = ((pkt, err), c', w') \<Longrightarrow>
   BNCSConn_RunServer_loop timeout (a # as) (c, w, f) =
     (if err = nil then BNCSConn_RunServer_loop timeout as (c', w', f @ [[Packet_arg pkt]])
      else if recoverable_bncs err
      then BNCSConn_RunServer_loop timeout as
             (c', w', f @ [[Error_arg (AsyncError ''RunServer[NextPacket]'' err)]])
      else (Returned err, c', w', f @ [[RunStop]]))"
  by (simp add: Fire_def recoverable_bncs_iff)

lemma BNCSConn_RunClient_loop_step:
  "BNCSConn_NextServerPacket timeout a (c, w) = ((pkt, err), c', w') \<Longrightarrow>
   BNCSConn_RunClient_loop timeout (a # as) (c, w, f) =
     (if err = nil then BNCSConn_RunClient_loop timeout as (c', w', f @ [[Packet_arg pkt]])
      else if recoverable_bncs err
      then BNCSConn_RunClient_loop timeout as
             (c', w', f @ [[Error_arg (AsyncError ''RunClient[NextPacket]'' err)]])
      else (Returned err, c', w', f @ [[RunStop]]))"
  by (simp add: Fire_def recoverable_bncs_iff)

lemma CAPIConn_Run_loop_step:
  "CAPIConn_NextPacket timeout a (c, w) = ((pkt, err), c', w') \<Longrightarrow>
   CAPIConn_Run_loop timeout (a # as) (c, w, f) =
     (if err = nil then
        (case pkt of
           None \<Rightarrow> (Panicked, c', w', f @ [[Packet_arg pkt]])
         | Some p \<Rightarrow> CAPIConn_Run_loop timeout as
             (c', w', f @ [[Packet_arg pkt], [Value_arg (Payload p), Packet_arg pkt]]))
      else if recoverable_capi err
      then CAPIConn_Run_loop timeout as
             (c', w', f @ [[Error_arg (AsyncError ''Run[NextPacket]'' err)]])
      else (Returned err, c', w', f @ [[RunStop]]))"
  by (cases err rule: recoverable_capi.cases) (simp_all add: Fire_def split: option.splits)

declare W3GSPacketConn_Run_loop.simps(2) [simp del] W3GSConn_Run_loop.simps(2) [simp del]
  BNCSConn_RunServer_loop.simps(2) [simp del] BNCSConn_RunClient_loop.simps(2) [simp del]
  CAPIConn_Run_loop.simps(2) [simp del]

lemma W3GSPacketConn_Run_loop_not_nil:
  "W3GSPacketConn_Run_loop D timeout as s = (Returned e, s') \<Longrightarrow> e \<noteq> nil"
proof (induction as arbitrary: s)
  case Nil
  then show ?case by (cases s) simp
next
  case (Cons a as)
  obtain c w f where s: "s = (c, w, f)" by (cases s)
  obtain r c' w' where n0: "W3GSPacketConn_NextPacket D timeout a (c, w) = (r, c', w')"
    using prod_cases3 by blast
  obtain pkt ad err where r: "r = (pkt, ad, err)" by (cases r)
  note n = n0 [unfolded r]
  show ?case
  proof (cases "err = nil")
    case True
    with Cons.prems have "W3GSPacketConn_Run_loop D timeout as (c', w', f @ [[Packet_arg pkt, Addr_arg ad]]) = (Returned e, s')"
      by (simp add: s W3GSPacketConn_Run_loop_step [OF n])
    then show ?thesis by (rule Cons.IH)
  next
    case False
    show ?thesis
    proof (cases "recoverable_w3gs err")
      case True
      with False Cons.prems have "W3GSPacketConn_Run_loop D timeout as
          (c', w', f @ [[Error_arg (AsyncError ''Run[NextPacket]'' err)]]) = (Returned e, s')"
        by (simp add: s W3GSPacketConn_Run_loop_step [OF n])
      then show ?thesis by (rule Cons.IH)
    next
      case fatal: False
      with False Cons.prems have "e = err" by (simp add: s W3GSPacketConn_Run_loop_step [OF n])
      with False show ?thesis by simp
    qed
  qed
qed

lemma W3GSConn_Run_loop_not_nil:
  "W3GSConn_Run_loop timeout as s = (Returned e, s') \<Longrightarrow> e \<noteq> nil"
proof (induction as arbitrary: s)
  case Nil
  then show ?case by (cases s) simp
next
  case (Cons a as)
  obtain c w f where s: "s = (c, w, f)" by (cases s)
  obtain r c' w' where n0: "W3GSConn_NextPacket timeout a (c, w) = (r, c', w')"
    using prod_cases3 by blast
  obtain pkt err where r: "r = (pkt, err)" by (cases r)
  note n = n0 [unfolded r]
  show ?case
  proof (cases "err = nil")
    case True
    with Cons.prems have "W3GSConn_Run_loop timeout as (c', w', f @ [[Packet_arg pkt]]) = (Returned e, s')"
      by (simp add: s W3GSConn_Run_loop_step [OF n])
    then show ?thesis by (rule Cons.IH)
  next
    case False
    show ?thesis
    proof (cases "recoverable_w3gs err")
      case True
      with False Cons.prems have "W3GSConn_Run_loop timeout as
          (c', w', f @ [[Error_arg (AsyncError ''Run[NextPacket]'' err)]]) = (Returned e, s')"
        by (simp add: s W3GSConn_Run_loop_step [OF n])
      then show ?thesis by (rule Cons.IH)
    next
      case fatal: False
      with False Cons.prems have "e = err" by (simp add: s W3GSConn_Run_loop_step [OF n])
      with False show ?thesis by simp
    qed
  qed
qed

lemma BNCSConn_RunServer_loop_not_nil:
  "BNCSConn_RunServer_loop timeout as s = (Returned e, s') \<Longrightarrow> e \<noteq> nil"
proof (induction as arbitrary: s)
  case Nil
  then show ?case by (cases s) simp
next
  case (Cons a as)
  obtain c w f where s: "s = (c, w, f)" by (cases s)
  obtain r c' w' where n0: "BNCSConn_NextClientPacket timeout a (c, w) = (r, c', w')"
    using prod_cases3 by blast
  obtain pkt err where r: "r = (pkt, err)" by (cases r)
  note n = n0 [unfolded r]
  show ?case
  proof (cases "err = nil")
    case True
    with Cons.prems have "BNCSConn_RunServer_loop timeout as (c', w', f @ [[Packet_arg pkt]]) = (Returned e, s')"
      by (simp add: s BNCSConn_RunServer_loop_step [OF n])
    then show ?thesis by (rule Cons.IH)
  next
    case False
    show ?thesis
    proof (cases "recoverable_bncs err")
      case True
      with False Cons.prems have "BNCSConn_RunServer_loop timeout as
          (c', w', f @ [[Error_arg (AsyncError ''RunServer[NextPacket]'' err)]]) = (Returned e, s')"
        by (simp add: s BNCSConn_RunServer_loop_step [OF n])
      then show ?thesis by (rule Cons.IH)
    next
      case fatal: False
      with False Cons.prems have "e = err" by (simp add: s BNCSConn_RunServer_loop_step [OF n])
      with False show ?thesis by simp
    qed
  qed
qed

lemma BNCSConn_RunClient_loop_not_nil:
  "BNCSConn_RunClient_loop timeout as s = (Returned e, s') \<Longrightarrow> e \<noteq> nil"
proof (induction as arbitrary: s)
  case Nil
  then show ?case by (cases s) simp
next
  case (Cons a as)
  obtain c w f where s: "s = (c, w, f)" by (cases s)
  obtain r c' w' where n0: "BNCSConn_NextServerPacket timeout a (c, w) = (r, c', w')"
    using prod_cases3 by blast
  obtain pkt err where r: "r = (pkt, err)" by (cases r)
  note n = n0 [unfolded r]
  show ?case
  proof (cases "err = nil")
    case True
    with Cons.prems have "BNCSConn_RunClient_loop timeout as (c', w', f @ [[Packet_arg pkt]]) = (Returned e, s')"
      by (simp add: s BNCSConn_RunClient_loop_step [OF n])
    then show ?thesis by (rule Cons.IH)
  next
    case False
    show ?thesis
    proof (cases "recoverable_bncs err")
      case True
      with False Cons.prems have "BNCSConn_RunClient_loop timeout as
          (c', w', f @ [[Error_arg (AsyncError ''RunClient[NextPacket]'' err)]]) = (Returned e, s')"
        by (simp add: s BNCSConn_RunClient_loop_step [OF n])
      then show ?thesis by (rule Cons.IH)
    next
      case fatal: False
      with False Cons.prems have "e = err" by (simp add: s BNCSConn_RunClient_loop_step [OF n])
      with False show ?thesis by simp
    qed
  qed
qed

lemma CAPIConn_Run_loop_not_nil:
  "CAPIConn_Run_loop timeout as s = (Returned e, s') \<Longrightarrow> e \<noteq> nil"
proof (induction as arbitrary: s)
  case Nil
  then show ?case by (cases s) simp
next
  case (Cons a as)
  obtain c w f where s: "s = (c, w, f)" by (cases s)
  obtain r c' w' where n0: "CAPIConn_NextPacket timeout a (c, w) = (r, c', w')"
    using prod_cases3 by blast
  obtain pkt err where r: "r = (pkt, err)" by (cases r)
  note n = n0 [unfolded r]
  show ?case
  proof (cases "err = nil")
    case True
    show ?thesis
    proof (cases pkt)
      case None
      with True Cons.prems show ?thesis by (simp add: s CAPIConn_Run_loop_step [OF n])
    next
      case (Some p)
      with True Cons.prems have "CAPIConn_Run_loop timeout as
          (c', w', f @ [[Packet_arg pkt], [Value_arg (Payload p), Packet_arg pkt]]) = (Returned e, s')"
        by (simp add: s CAPIConn_Run_loop_step [OF n])
      then show ?thesis by (rule Cons.IH)
    qed
  next
    case False
    show ?thesis
    proof (cases "recoverable_capi err")
      case True
      with False Cons.prems have "CAPIConn_Run_loop timeout as
          (c', w', f @ [[Error_arg (AsyncError ''Run[NextPacket]'' err)]]) = (Returned e, s')"
        by (simp add: s CAPIConn_Run_loop_step [OF n])
      then show ?thesis by (rule Cons.IH)
    next
      case fatal: False
      with False Cons.prems have "e = err" by (simp add: s CAPIConn_Run_loop_step [OF n])
      with False show ?thesis by simp
    qed
  qed
qed


lemma receives3:
  "receives next [a1, a2, a3] s = [r1, r2, r3] \<Longrightarrow>
   \<exists>s1 s2 s3. next a1 s = (r1, s1) \<and> next a2 s1 = (r2, s2) \<and> next a3 s2 = (r3, s3)"
  by (auto split: prod.splits)

lemma recoverable_not_nil:
  "recoverable_w3gs e \<Longrightarrow> e \<noteq> nil" "recoverable_bncs e \<Longrightarrow> e \<noteq> nil"
  "recoverable_capi e \<Longrightarrow> e \<noteq> nil"
  by auto

lemma W3GSPacketConn_Run_scenario:
  assumes r: "receives (W3GSPacketConn_NextPacket D timeout) [a1, a2, a3] (c, w) = [(p1, d1, e1), (p2, d2, nil), (p3, d3, e3)]"
    and e1: "recoverable_w3gs e1" and e3: "e3 \<noteq> nil" "\<not> recoverable_w3gs e3"
  shows "exit_of (W3GSPacketConn_Run D timeout (a1 # a2 # a3 # rest) (c, w, f)) = Returned e3 \<and>
         fired (W3GSPacketConn_Run D timeout (a1 # a2 # a3 # rest) (c, w, f)) =
           f @ [[RunStart], [Error_arg (AsyncError ''Run[NextPacket]'' e1)], [Packet_arg p2, Addr_arg d2], [RunStop]]"
proof -
  from receives3 [OF r] obtain s1 s2 s3 where
    "W3GSPacketConn_NextPacket D timeout a1 (c, w) = ((p1, d1, e1), s1)"
    "W3GSPacketConn_NextPacket D timeout a2 s1 = ((p2, d2, nil), s2)"
    "W3GSPacketConn_NextPacket D timeout a3 s2 = ((p3, d3, e3), s3)" by blast
  moreover obtain c1 w1 c2 w2 c3 w3 where "s1 = (c1, w1)" "s2 = (c2, w2)" "s3 = (c3, w3)"
    by (cases s1, cases s2, cases s3) auto
  ultimately have n:
    "W3GSPacketConn_NextPacket D timeout a1 (c, w) = ((p1, d1, e1), c1, w1)"
    "W3GSPacketConn_NextPacket D timeout a2 (c1, w1) = ((p2, d2, nil), c2, w2)"
    "W3GSPacketConn_NextPacket D timeout a3 (c2, w2) = ((p3, d3, e3), c3, w3)" by simp_all
  show ?thesis
    using e1 e3 recoverable_not_nil(1) [OF e1]
    by (simp add: W3GSPacketConn_Run_def Fire_def exit_of_def fired_def
          W3GSPacketConn_Run_loop_step [OF n(1)] W3GSPacketConn_Run_loop_step [OF n(2)]
          W3GSPacketConn_Run_loop_step [OF n(3)])
qed

lemma W3GSPacketConn_Run_not_nil:
  "exit_of (W3GSPacketConn_Run D timeout as s) = Returned e \<Longrightarrow> e \<noteq> nil"
proof -
  assume a: "exit_of (W3GSPacketConn_Run D timeout as s) = Returned e"
  obtain c w f where s: "s = (c, w, f)" by (cases s)
  obtain s' where "W3GSPacketConn_Run_loop D timeout as (c, w, Fire [RunStart] f) = (Returned e, s')"
    using a by (cases "W3GSPacketConn_Run_loop D timeout as (c, w, Fire [RunStart] f)")
               (simp add: s W3GSPacketConn_Run_def exit_of_def)
  then show ?thesis by (rule W3GSPacketConn_Run_loop_not_nil)
qed

lemma W3GSConn_Run_scenario:
  assumes r: "receives (W3GSConn_NextPacket timeout) [a1, a2, a3] (c, w) = [(p1, e1), (p2, nil), (p3, e3)]"
    and e1: "recoverable_w3gs e1" and e3: "e3 \<noteq> nil" "\<not> recoverable_w3gs e3"
  shows "exit_of (W3GSConn_Run timeout (a1 # a2 # a3 # rest) (c, w, f)) = Returned e3 \<and>
         fired (W3GSConn_Run timeout (a1 # a2 # a3 # rest) (c, w, f)) =
           f @ [[RunStart], [Error_arg (AsyncError ''Run[NextPacket]'' e1)], [Packet_arg p2], [RunStop]]"
proof -
  from receives3 [OF r] obtain s1 s2 s3 where
    "W3GSConn_NextPacket timeout a1 (c, w) = ((p1, e1), s1)"
    "W3GSConn_NextPacket timeout a2 s1 = ((p2, nil), s2)"
    "W3GSConn_NextPacket timeout a3 s2 = ((p3, e3), s3)" by blast
  moreover obtain c1 w1 c2 w2 c3 w3 where "s1 = (c1, w1)" "s2 = (c2, w2)" "s3 = (c3, w3)"
    by (cases s1, cases s2, cases s3) auto
  ultimately have n:
    "W3GSConn_NextPacket timeout a1 (c, w) = ((p1, e1), c1, w1)"
    "W3GSConn_NextPacket timeout a2 (c1, w1) = ((p2, nil), c2, w2)"
    "W3GSConn_NextPacket timeout a3 (c2, w2) = ((p3, e3), c3, w3)" by simp_all
  show ?thesis
    using e1 e3 recoverable_not_nil(1) [OF e1]
    by (simp add: W3GSConn_Run_def Fire_def exit_of_def fired_def
          W3GSConn_Run_loop_step [OF n(1)] W3GSConn_Run_loop_step [OF n(2)]
          W3GSConn_Run_loop_step [OF n(3)])
qed

lemma W3GSConn_Run_not_nil:
  "exit_of (W3GSConn_Run timeout as s) = Returned e \<Longrightarrow> e \<noteq> nil"
proof -
  assume a: "exit_of (W3GSConn_Run timeout as s) = Returned e"
  obtain c w f where s: "s = (c, w, f)" by (cases s)
  obtain s' where "W3GSConn_Run_loop timeout as (c, w, Fire [RunStart] f) = (Returned e, s')"
    using a by (cases "W3GSConn_Run_loop timeout as (c, w, Fire [RunStart] f)")
               (simp add: s W3GSConn_Run_def exit_of_def)
  then show ?thesis by (rule W3GSConn_Run_loop_not_nil)
qed

lemma BNCSConn_RunServer_scenario:
  assumes r: "receives (BNCSConn_NextClientPacket timeout) [a1, a2, a3] (c, w) = [(p1, e1), (p2, nil), (p3, e3)]"
    and e1: "recoverable_bncs e1" and e3: "e3 \<noteq> nil" "\<not> recoverable_bncs e3"
  shows "exit_of (BNCSConn_RunServer timeout (a1 # a2 # a3 # rest) (c, w, f)) = Returned e3 \<and>
         fired (BNCSConn_RunServer timeout (a1 # a2 # a3 # rest) (c, w, f)) =
           f @ [[RunStart], [Error_arg (AsyncError ''RunServer[NextPacket]'' e1)], [Packet_arg p2], [RunStop]]"
proof -
  from receives3 [OF r] obtain s1 s2 s3 where
    "BNCSConn_NextClientPacket timeout a1 (c, w) = ((p1, e1), s1)"
    "BNCSConn_NextClientPacket timeout a2 s1 = ((p2, nil), s2)"
    "BNCSConn_NextClientPacket timeout a3 s2 = ((p3, e3), s3)" by blast
  moreover obtain c1 w1 c2 w2 c3 w3 where "s1 = (c1, w1)" "s2 = (c2, w2)" "s3 = (c3, w3)"
    by (cases s1, cases s2, cases s3) auto
  ultimately have n:
    "BNCSConn_NextClientPacket timeout a1 (c, w) = ((p1, e1), c1, w1)"
    "BNCSConn_NextClientPacket timeout a2 (c1, w1) = ((p2, nil), c2, w2)"
    "BNCSConn_NextClientPacket timeout a3 (c2, w2) = ((p3, e3), c3, w3)" by simp_all
  show ?thesis
    using e1 e3 recoverable_not_nil(2) [OF e1]
    by (simp add: BNCSConn_RunServer_def Fire_def exit_of_def fired_def
          BNCSConn_RunServer_loop_step [OF n(1)] BNCSConn_RunServer_loop_step [OF n(2)]
          BNCSConn_RunServer_loop_step [OF n(3)])
qed

lemma BNCSConn_RunServer_not_nil:
  "exit_of (BNCSConn_RunServer timeout as s) = Returned e \<Longrightarrow> e \<noteq> nil"
proof -
  assume a: "exit_of (BNCSConn_RunServer timeout as s) = Returned e"
  obtain c w f where s: "s = (c, w, f)" by (cases s)
  obtain s' where "BNCSConn_RunServer_loop timeout as (c, w, Fire [RunStart] f) = (Returned e, s')"
    using a by (cases "BNCSConn_RunServer_loop timeout as (c, w, Fire [RunStart] f)")
               (simp add: s BNCSConn_RunServer_def exit_of_def)
  then show ?thesis by (rule BNCSConn_RunServer_loop_not_nil)
qed

lemma BNCSConn_RunClient_scenario:
  assumes r: "receives (BNCSConn_NextServerPacket timeout) [a1, a2, a3] (c, w) = [(p1, e1), (p2, nil), (p3, e3)]"
    and e1: "recoverable_bncs e1" and e3: "e3 \<noteq> nil" "\<not> recoverable_bncs e3"
  shows "exit_of (BNCSConn_RunClient timeout (a1 # a2 # a3 # rest) (c, w, f)) = Returned e3 \<and>
         fired (BNCSConn_RunClient timeout (a1 # a2 # a3 # rest) (c, w, f)) =
           f @ [[RunStart], [Error_arg (AsyncError ''RunClient[NextPacket]'' e1)], [Packet_arg p2], [RunStop]]"
proof -
  from receives3 [OF r] obtain s1 s2 s3 where
    "BNCSConn_NextServerPacket timeout a1 (c, w) = ((p1, e1), s1)"
    "BNCSConn_NextServerPacket timeout a2 s1 = ((p2, nil), s2)"
    "BNCSConn_NextServerPacket timeout a3 s2 = ((p3, e3), s3)" by blast
  moreover obtain c1 w1 c2 w2 c3 w3 where "s1 = (c1, w1)" "s2 = (c2, w2)" "s3 = (c3, w3)"
    by (cases s1, cases s2, cases s3) auto
  ultimately have n:
    "BNCSConn_NextServerPacket timeout a1 (c, w) = ((p1, e1), c1, w1)"
    "BNCSConn_NextServerPacket timeout a2 (c1, w1) = ((p2, nil), c2, w2)"
    "BNCSConn_NextServerPacket timeout a3 (c2, w2) = ((p3, e3), c3, w3)" by simp_all
  show ?thesis
    using e1 e3 recoverable_not_nil(2) [OF e1]
    by (simp add: BNCSConn_RunClient_def Fire_def exit_of_def fired_def
          BNCSConn_RunClient_loop_step [OF n(1)] BNCSConn_RunClient_loop_step [OF n(2)]
          BNCSConn_RunClient_loop_step [OF n(3)])
qed

lemma BNCSConn_RunClient_not_nil:
  "exit_of (BNCSConn_RunClient timeout as s) = Returned e \<Longrightarrow> e \<noteq> nil"
proof -
  assume a: "exit_of (BNCSConn_RunClient timeout as s) = Returned e"
  obtain c w f where s: "s = (c, w, f)" by (cases s)
  obtain s' where "BNCSConn_RunClient_loop timeout as (c, w, Fire [RunStart] f) = (Returned e, s')"
    using a by (cases "BNCSConn_RunClient_loop timeout as (c, w, Fire [RunStart] f)")
               (simp add: s BNCSConn_RunClient_def exit_of_def)
  then show ?thesis by (rule BNCSConn_RunClient_loop_not_nil)
qed

lemma CAPIConn_Run_scenario:
  assumes r: "receives (CAPIConn_NextPacket timeout) [a1, a2, a3] (c, w) = [(p1, e1), (Some p2, nil), (p3, e3)]"
    and e1: "recoverable_capi e1" and e3: "e3 \<noteq> nil" "\<not> recoverable_capi e3"
  shows "exit_of (CAPIConn_Run timeout (a1 # a2 # a3 # rest) (c, w, f)) = Returned e3 \<and>
         fired (CAPIConn_Run timeout (a1 # a2 # a3 # rest) (c, w, f)) =
           f @ [[RunStart], [Error_arg (AsyncError ''Run[NextPacket]'' e1)], [Packet_arg (Some p2)], [Value_arg (Payload p2), Packet_arg (Some p2)], [RunStop]]"
proof -
  from receives3 [OF r] obtain s1 s2 s3 where
    "CAPIConn_NextPacket timeout a1 (c, w) = ((p1, e1), s1)"
    "CAPIConn_NextPacket timeout a2 s1 = ((Some p2, nil), s2)"
    "CAPIConn_NextPacket timeout a3 s2 = ((p3, e3), s3)" by blast
  moreover obtain c1 w1 c2 w2 c3 w3 where "s1 = (c1, w1)" "s2 = (c2, w2)" "s3 = (c3, w3)"
    by (cases s1, cases s2, cases s3) auto
  ultimately have n:
    "CAPIConn_NextPacket timeout a1 (c, w) = ((p1, e1), c1, w1)"
    "CAPIConn_NextPacket timeout a2 (c1, w1) = ((Some p2, nil), c2, w2)"
    "CAPIConn_NextPacket timeout a3 (c2, w2) = ((p3, e3), c3, w3)" by simp_all
  show ?thesis
    using e1 e3 recoverable_not_nil(3) [OF e1]
    by (simp add: CAPIConn_Run_def Fire_def exit_of_def fired_def
          CAPIConn_Run_loop_step [OF n(1)] CAPIConn_Run_loop_step [OF n(2)]
          CAPIConn_Run_loop_step [OF n(3)])
qed

lemma CAPIConn_Run_not_nil:
  "exit_of (CAPIConn_Run timeout as s) = Returned e \<Longrightarrow> e \<noteq> nil"
proof -
  assume a: "exit_of (CAPIConn_Run timeout as s) = Returned e"
  obtain c w f where s: "s = (c, w, f)" by (cases s)
  obtain s' where "CAPIConn_Run_loop timeout as (c, w, Fire [RunStart] f) = (Returned e, s')"
    using a by (cases "CAPIConn_Run_loop timeout as (c, w, Fire [RunStart] f)")
               (simp add: s CAPIConn_Run_def exit_of_def)
  then show ?thesis by (rule CAPIConn_Run_loop_not_nil)
qed

lemma CAPIConn_Run_loop_continues:
  "\<forall>r \<in> set (receives (CAPIConn_NextPacket timeout) as s). capi_continues r \<Longrightarrow>
   CAPIConn_Run_loop timeout (as @ bs) (fst s, snd s, f) =
     CAPIConn_Run_loop timeout bs
       (fst (after_receives (CAPIConn_NextPacket timeout) as s),
        snd (after_receives (CAPIConn_NextPacket timeout) as s),
        f @ concat (map capi_fired (receives (CAPIConn_NextPacket timeout) as s)))"
proof (induction as arbitrary: s f)
  case Nil
  then show ?case by simp
next
  case (Cons a as)
  obtain r c' w' where n0: "CAPIConn_NextPacket timeout a (fst s, snd s) = (r, c', w')"
    using prod_cases3 by blast
  obtain pkt err where r: "r = (pkt, err)" by (cases r)
  note n = n0 [unfolded r]
  from Cons.prems n have cont: "capi_continues (pkt, err)"
    and rest: "\<forall>r \<in> set (receives (CAPIConn_NextPacket timeout) as (c', w')). capi_continues r"
    by auto
  from Cons.IH [OF rest, of "f @ capi_fired (pkt, err)"] cont n show ?case
    by (auto simp: CAPIConn_Run_loop_step [OF n] recoverable_not_nil split: option.splits)
qed

text \<open>
  C1, as stated, on the CAPI loop: after a JSON syntax error, a decoded packet and a
  closed connection, the loop has fired five events, not four; the packet event is
  followed by the event of its payload.
\<close>

theorem CAPIConn_Run_payload_event_counterexample:
  "receives (CAPIConn_NextPacket 0)
      [example_capi_answers nil (None, SyntaxError ''unexpected end of JSON input''),
       example_capi_answers nil (Some \<lparr>Payload = 7\<rparr>, nil),
       example_capi_answers (CloseError 1006 ''unexpected EOF'') (None, nil)]
      (NewCAPIConn (Some 1), []) =
     [(None, SyntaxError ''unexpected end of JSON input''), (Some \<lparr>Payload = 7::nat\<rparr>, nil),
      (None, CloseError 1006 ''unexpected EOF'')] \<and>
   fired (CAPIConn_Run 0
      [example_capi_answers nil (None, SyntaxError ''unexpected end of JSON input''),
       example_capi_answers nil (Some \<lparr>Payload = 7\<rparr>, nil),
       example_capi_answers (CloseError 1006 ''unexpected EOF'') (None, nil)]
      (NewCAPIConn (Some 1), [], [])) =
     [[RunStart],
      [Error_arg (AsyncError ''Run[NextPacket]'' (SyntaxError ''unexpected end of JSON input''))],
      [Packet_arg (Some \<lparr>Payload = 7\<rparr>)],
      [Value_arg 7, Packet_arg (Some \<lparr>Payload = 7\<rparr>)], [RunStop]] \<and>
   fired (CAPIConn_Run 0
      [example_capi_answers nil (None, SyntaxError ''unexpected end of JSON input''),
       example_capi_answers nil (Some \<lparr>Payload = 7\<rparr>, nil),
       example_capi_answers (CloseError 1006 ''unexpected EOF'') (None, nil)]
      (NewCAPIConn (Some 1), [], [])) \<noteq>
     [[RunStart],
      [Error_arg (AsyncError ''Run[NextPacket]'' (SyntaxError ''unexpected end of JSON input''))],
      [Packet_arg (Some \<lparr>Payload = 7\<rparr>)], [RunStop]]"
  by (simp add: example_capi_answers_def NewCAPIConn_def CAPIConn_NextPacket_def
        CAPIConn_Run_def CAPIConn_Run_loop.simps(2) Fire_def fired_def)

text \<open>
  C1, amended. When the successive receive results are a recoverable error, a decoded
  packet and a fatal error, each run loop returns the fatal error and has fired exactly
  \<open>RunStart\<close>, one \<open>AsyncError\<close> with the recoverable error as cause, the packet event
  (with the source address in \<open>W3GSPacketConn\<close>), and \<open>RunStop\<close>; in \<open>CAPIConn\<close> the
  packet event is followed by one event carrying the payload. No run loop returns nil.
\<close>

theorem Run_recoverable_packet_fatal:
  "(receives (W3GSPacketConn_NextPacket D timeout) [ua_x, ua_y, ua_z] (uc, uw)
        = [(up_x, ud_x, ue_x), (up_y, ud_y, nil), (up_z, ud_z, ue_z)] \<and>
      recoverable_w3gs ue_x \<and> ue_z \<noteq> nil \<and> \<not> recoverable_w3gs ue_z \<longrightarrow>
    exit_of (W3GSPacketConn_Run D timeout (ua_x # ua_y # ua_z # urest) (uc, uw, uf)) = Returned ue_z \<and>
    fired (W3GSPacketConn_Run D timeout (ua_x # ua_y # ua_z # urest) (uc, uw, uf)) =
      uf @ [[RunStart], [Error_arg (AsyncError ''Run[NextPacket]'' ue_x)],
            [Packet_arg up_y, Addr_arg ud_y], [RunStop]]) \<and>
   (receives (W3GSConn_NextPacket timeout) [ta_x, ta_y, ta_z] (tc, tw)
        = [(tp_x, te_x), (tp_y, nil), (tp_z, te_z)] \<and>
      recoverable_w3gs te_x \<and> te_z \<noteq> nil \<and> \<not> recoverable_w3gs te_z \<longrightarrow>
    exit_of (W3GSConn_Run timeout (ta_x # ta_y # ta_z # trest) (tc, tw, tf)) = Returned te_z \<and>
    fired (W3GSConn_Run timeout (ta_x # ta_y # ta_z # trest) (tc, tw, tf)) =
      tf @ [[RunStart], [Error_arg (AsyncError ''Run[NextPacket]'' te_x)],
            [Packet_arg tp_y], [RunStop]]) \<and>
   (receives (BNCSConn_NextClientPacket timeout) [sa_x, sa_y, sa_z] (sc, sw)
        = [(sp_x, se_x), (sp_y, nil), (sp_z, se_z)] \<and>
      recoverable_bncs se_x \<and> se_z \<noteq> nil \<and> \<not> recoverable_bncs se_z \<longrightarrow>
    exit_of (BNCSConn_RunServer timeout (sa_x # sa_y # sa_z # srest) (sc, sw, sf)) = Returned se_z \<and>
    fired (BNCSConn_RunServer timeout (sa_x # sa_y # sa_z # srest) (sc, sw, sf)) =
      sf @ [[RunStart], [Error_arg (AsyncError ''RunServer[NextPacket]'' se_x)],
            [Packet_arg sp_y], [RunStop]]) \<and>
   (receives (BNCSConn_NextServerPacket timeout) [ka_x, ka_y, ka_z] (kc, kw)
        = [(kp_x, ke_x), (kp_y, nil), (kp_z, ke_z)] \<and>
      recoverable_bncs ke_x \<and> ke_z \<noteq> nil \<and> \<not> recoverable_bncs ke_z \<longrightarrow>
    exit_of (BNCSConn_RunClient timeout (ka_x # ka_y # ka_z # krest) (kc, kw, kf)) = Returned ke_z \<and>
    fired (BNCSConn_RunClient timeout (ka_x # ka_y # ka_z # krest) (kc, kw, kf)) =
      kf @ [[RunStart], [Error_arg (AsyncError ''RunClient[NextPacket]'' ke_x)],
            [Packet_arg kp_y], [RunStop]]) \<and>
   (receives (CAPIConn_NextPacket timeout) [ca_x, ca_y, ca_z] (cc, cw)
        = [(cp_x, ce_x), (Some cp_y, nil), (cp_z, ce_z)] \<and>
      recoverable_capi ce_x \<and> ce_z \<noteq> nil \<and> \<not> recoverable_capi ce_z \<longrightarrow>
    exit_of (CAPIConn_Run timeout (ca_x # ca_y # ca_z # crest) (cc, cw, cf)) = Returned ce_z \<and>
    fired (CAPIConn_Run timeout (ca_x # ca_y # ca_z # crest) (cc, cw, cf)) =
      cf @ [[RunStart], [Error_arg (AsyncError ''Run[NextPacket]'' ce_x)],
            [Packet_arg (Some cp_y)], [Value_arg (Payload cp_y), Packet_arg (Some cp_y)],
            [RunStop]]) \<and>
   (exit_of (W3GSPacketConn_Run D timeout uas us) = Returned ue \<longrightarrow> ue \<noteq> nil) \<and>
   (exit_of (W3GSConn_Run timeout tas ts) = Returned te \<longrightarrow> te \<noteq> nil) \<and>
   (exit_of (BNCSConn_RunServer timeout sas ss) = Returned se \<longrightarrow> se \<noteq> nil) \<and>
   (exit_of (BNCSConn_RunClient timeout kas ks) = Returned ke \<longrightarrow> ke \<noteq> nil) \<and>
   (exit_of (CAPIConn_Run timeout cas cs) = Returned ce \<longrightarrow> ce \<noteq> nil)"
proof (intro conjI impI; (elim conjE)?)
  show "ue \<noteq> nil" if "exit_of (W3GSPacketConn_Run D timeout uas us) = Returned ue"
    using that by (rule W3GSPacketConn_Run_not_nil)
  show "te \<noteq> nil" if "exit_of (W3GSConn_Run timeout tas ts) = Returned te"
    using that by (rule W3GSConn_Run_not_nil)
  show "se \<noteq> nil" if "exit_of (BNCSConn_RunServer timeout sas ss) = Returned se"
    using that by (rule BNCSConn_RunServer_not_nil)
  show "ke \<noteq> nil" if "exit_of (BNCSConn_RunClient timeout kas ks) = Returned ke"
    using that by (rule BNCSConn_RunClient_not_nil)
  show "ce \<noteq> nil" if "exit_of (CAPIConn_Run timeout cas cs) = Returned ce"
    using that by (rule CAPIConn_Run_not_nil)
qed (simp_all add: W3GSPacketConn_Run_scenario W3GSConn_Run_scenario BNCSConn_RunServer_scenario
       BNCSConn_RunClient_scenario CAPIConn_Run_scenario)

theorem Run_recoverable_packet_fatal_witness:
  "fired (W3GSPacketConn_Run example_Deserialize 0
      [example_udp_answers [] nil, example_udp_answers [7] nil,
       example_udp_answers [] closed_network_error]
      (NewW3GSPacketConn (Some 1), [], ([] :: (nat, unit) emitter))) =
     [[RunStart], [Error_arg (AsyncError ''Run[NextPacket]'' (W3GS ErrInvalidPacketSize))],
      [Packet_arg (Some 7), Addr_arg (Some ''10.0.0.2:6112'')], [RunStop]] \<and>
   exit_of (W3GSConn_Run 0
      [example_stream_answers (None, 0, W3GS ErrInvalidChecksum),
       example_stream_answers (Some 7, 4, nil), example_stream_answers (None, 0, EOF)]
      (NewW3GSConn (Some 1), [], ([] :: (nat, unit) emitter))) = Returned EOF \<and>
   exit_of (BNCSConn_RunServer 0
      [example_stream_answers (None, 0, BNCS ErrUnexpectedConst),
       example_stream_answers (Some 7, 4, nil), example_stream_answers (None, 0, EOF)]
      (NewBNCSConn (Some 1), [], ([] :: (nat, unit) emitter))) = Returned EOF \<and>
   exit_of (BNCSConn_RunClient 0
      [example_stream_answers (None, 0, BNCS ErrBufferTooSmall),
       example_stream_answers (Some 7, 4, nil), example_stream_answers (None, 0, EOF)]
      (NewBNCSConn (Some 1), [], ([] :: (nat, unit) emitter))) = Returned EOF \<and>
   fired (CAPIConn_Run 0
      [example_capi_answers nil (None, SyntaxError ''unexpected end of JSON input''),
       example_capi_answers nil (Some \<lparr>Payload = 7\<rparr>, nil),
       example_capi_answers (CloseError 1006 ''unexpected EOF'') (None, nil)]
      (NewCAPIConn (Some 1), [], [])) =
     [[RunStart],
      [Error_arg (AsyncError ''Run[NextPacket]'' (SyntaxError ''unexpected end of JSON input''))],
      [Packet_arg (Some \<lparr>Payload = 7\<rparr>)],
      [Value_arg 7, Packet_arg (Some \<lparr>Payload = 7\<rparr>)], [RunStop]] \<and>
   EOF \<noteq> nil"
  using Run_recoverable_packet_fatal
    [where D = example_Deserialize and timeout = 0
       and ua_x = "example_udp_answers [] nil" and ua_y = "example_udp_answers [7] nil"
       and ua_z = "example_udp_answers [] closed_network_error" and urest = "[]"
       and uc = "NewW3GSPacketConn (Some 1)" and uw = "[]" and uf = "[] :: (nat, unit) emitter"
       and up_x = None and ud_x = None and ue_x = "W3GS ErrInvalidPacketSize"
       and up_y = "Some 7" and ud_y = "Some ''10.0.0.2:6112''"
       and up_z = None and ud_z = None and ue_z = closed_network_error
       and ta_x = "example_stream_answers (None, 0, W3GS ErrInvalidChecksum)"
       and ta_y = "example_stream_answers (Some 7, 4, nil)"
       and ta_z = "example_stream_answers (None, 0, EOF)" and trest = "[]"
       and tc = "NewW3GSConn (Some 1)" and tw = "[]" and tf = "[] :: (nat, unit) emitter"
       and tp_x = None and te_x = "W3GS ErrInvalidChecksum" and tp_y = "Some 7"
       and tp_z = None and te_z = EOF
       and sa_x = "example_stream_answers (None, 0, BNCS ErrUnexpectedConst)"
       and sa_y = "example_stream_answers (Some 7, 4, nil)"
       and sa_z = "example_stream_answers (None, 0, EOF)" and srest = "[]"
       and sc = "NewBNCSConn (Some 1)" and sw = "[]" and sf = "[] :: (nat, unit) emitter"
       and sp_x = None and se_x = "BNCS ErrUnexpectedConst" and sp_y = "Some 7"
       and sp_z = None and se_z = EOF
       and ka_x = "example_stream_answers (None, 0, BNCS ErrBufferTooSmall)"
       and ka_y = "example_stream_answers (Some 7, 4, nil)"
       and ka_z = "example_stream_answers (None, 0, EOF)" and krest = "[]"
       and kc = "NewBNCSConn (Some 1)" and kw = "[]" and kf = "[] :: (nat, unit) emitter"
       and kp_x = None and ke_x = "BNCS ErrBufferTooSmall" and kp_y = "Some 7"
       and kp_z = None and ke_z = EOF
       and ca_x = "example_capi_answers nil (None, SyntaxError ''unexpected end of JSON input'')"
       and ca_y = "example_capi_answers nil (Some \<lparr>Payload = 7\<rparr>, nil)"
       and ca_z = "example_capi_answers (CloseError 1006 ''unexpected EOF'') (None, nil)"
       and crest = "[]" and cc = "NewCAPIConn (Some 1)" and cw = "[]" and cf = "[]"
       and cp_x = None and ce_x = "SyntaxError ''unexpected end of JSON input''"
       and cp_y = "\<lparr>Payload = 7\<rparr>" and cp_z = None and ce_z = "CloseError 1006 ''unexpected EOF''"
       and uas = "[example_udp_answers [] closed_network_error]"
       and us = "(NewW3GSPacketConn (Some 1), [], [] :: (nat, unit) emitter)"
       and ue = closed_network_error
       and tas = "[example_stream_answers (None, 0, EOF)]"
       and ts = "(NewW3GSConn (Some 1), [], [] :: (nat, unit) emitter)" and te = EOF
       and sas = "[example_stream_answers (None, 0, EOF)]"
       and ss = "(NewBNCSConn (Some 1), [], [] :: (nat, unit) emitter)" and se = EOF
       and kas = "[example_stream_answers (None, 0, EOF)]"
       and ks = "(NewBNCSConn (Some 1), [], [] :: (nat, unit) emitter)" and ke = EOF
       and cas = "[example_capi_answers EOF (None, nil)]"
       and cs = "(NewCAPIConn (Some 1), [], [] :: (nat capi_Packet, nat) emitter)" and ce = EOF]
  by (simp add: example_Deserialize_def example_udp_answers_def example_stream_answers_def
        example_capi_answers_def closed_network_error_def
        NewW3GSPacketConn_def NewW3GSConn_def NewBNCSConn_def NewCAPIConn_def
        W3GSPacketConn_NextPacket_def W3GSConn_NextPacket_def BNCSConn_NextClientPacket_def
        BNCSConn_NextServerPacket_def CAPIConn_NextPacket_def)

text \<open>
  C9. In the CAPI loop, as long as every receive result is a JSON syntax error, a JSON
  type error or a decoded packet, the loop goes on with the remaining answers (it is
  still running when they are used up), and it has fired, after \<open>RunStart\<close>, for each
  JSON error one \<open>AsyncError\<close> and for each decoded packet exactly two events: the packet,
  then the payload with the packet.
\<close>

theorem CAPIConn_Run_fires:
  "((\<forall>r \<in> set (receives (CAPIConn_NextPacket timeout) as (c, w)). capi_continues r) \<longrightarrow>
      CAPIConn_Run timeout (as @ bs) (c, w, f) =
        CAPIConn_Run_loop timeout bs
          (fst (after_receives (CAPIConn_NextPacket timeout) as (c, w)),
           snd (after_receives (CAPIConn_NextPacket timeout) as (c, w)),
           f @ [[RunStart]] @ concat (map capi_fired (receives (CAPIConn_NextPacket timeout) as (c, w)))) \<and>
      exit_of (CAPIConn_Run timeout as (c, w, f)) = Pending \<and>
      fired (CAPIConn_Run timeout as (c, w, f)) =
        f @ [[RunStart]] @ concat (map capi_fired (receives (CAPIConn_NextPacket timeout) as (c, w)))) \<and>
   capi_continues (pkt, SyntaxError t) \<and>
   capi_fired (pkt, SyntaxError t) = [[Error_arg (AsyncError ''Run[NextPacket]'' (SyntaxError t))]] \<and>
   capi_continues (pkt, UnmarshalTypeError t) \<and>
   capi_fired (pkt, UnmarshalTypeError t) =
     [[Error_arg (AsyncError ''Run[NextPacket]'' (UnmarshalTypeError t))]] \<and>
   capi_continues (Some p, nil) \<and>
   capi_fired (Some p, nil) = [[Packet_arg (Some p)], [Value_arg (Payload p), Packet_arg (Some p)]]"
proof (intro conjI impI)
  assume a: "\<forall>r \<in> set (receives (CAPIConn_NextPacket timeout) as (c, w)). capi_continues r"
  from CAPIConn_Run_loop_continues [OF a, of bs "f @ [[RunStart]]"]
  show run: "CAPIConn_Run timeout (as @ bs) (c, w, f) =
        CAPIConn_Run_loop timeout bs
          (fst (after_receives (CAPIConn_NextPacket timeout) as (c, w)),
           snd (after_receives (CAPIConn_NextPacket timeout) as (c, w)),
           f @ [[RunStart]] @ concat (map capi_fired (receives (CAPIConn_NextPacket timeout) as (c, w))))"
    by (simp add: CAPIConn_Run_def Fire_def)
  from CAPIConn_Run_loop_continues [OF a, of "[]" "f @ [[RunStart]]"]
  have "CAPIConn_Run timeout as (c, w, f) =
       (Pending, fst (after_receives (CAPIConn_NextPacket timeout) as (c, w)),
           snd (after_receives (CAPIConn_NextPacket timeout) as (c, w)),
           f @ [[RunStart]] @ concat (map capi_fired (receives (CAPIConn_NextPacket timeout) as (c, w))))"
    by (simp add: CAPIConn_Run_def Fire_def)
  then show "exit_of (CAPIConn_Run timeout as (c, w, f)) = Pending"
    and "fired (CAPIConn_Run timeout as (c, w, f)) =
        f @ [[RunStart]] @ concat (map capi_fired (receives (CAPIConn_NextPacket timeout) as (c, w)))"
    by (simp_all add: exit_of_def fired_def)
qed simp_all

theorem CAPIConn_Run_fires_witness:
  "fired (CAPIConn_Run 0
      [example_capi_answers nil (None, SyntaxError ''unexpected end of JSON input''),
       example_capi_answers nil (Some \<lparr>Payload = 7\<rparr>, nil),
       example_capi_answers nil (None, UnmarshalTypeError ''cannot unmarshal string''),
       example_capi_answers nil (Some \<lparr>Payload = 8\<rparr>, nil)]
      (NewCAPIConn (Some 1), [], [])) =
     [[RunStart],
      [Error_arg (AsyncError ''Run[NextPacket]'' (SyntaxError ''unexpected end of JSON input''))],
      [Packet_arg (Some \<lparr>Payload = 7\<rparr>)],
      [Value_arg 7, Packet_arg (Some \<lparr>Payload = 7\<rparr>)],
      [Error_arg (AsyncError ''Run[NextPacket]'' (UnmarshalTypeError ''cannot unmarshal string''))],
      [Packet_arg (Some \<lparr>Payload = 8\<rparr>)],
      [Value_arg 8, Packet_arg (Some \<lparr>Payload = 8\<rparr>)]]"
  using CAPIConn_Run_fires
    [where timeout = 0 and c = "NewCAPIConn (Some 1)" and w = "[]" and f = "[]" and bs = "[]"
       and as = "[example_capi_answers nil (None, SyntaxError ''unexpected end of JSON input''),
       example_capi_answers nil (Some \<lparr>Payload = 7::nat\<rparr>, nil),
       example_capi_answers nil (None, UnmarshalTypeError ''cannot unmarshal string''),
       example_capi_answers nil (Some \<lparr>Payload = 8\<rparr>, nil)]"]
  by (simp add: example_capi_answers_def NewCAPIConn_def CAPIConn_NextPacket_def
        exit_of_def fired_def)

end
